theory Spec2Isabelle
  imports Complex_Main
begin

section \<open>Values crossing the bridge\<close>

text \<open>
  A JavaScript number. The finite values are kept as rationals; the three non-finite
  values are separate constructors. No arithmetic is done on them by the bridge: it only
  passes them to the engine and to \<^verbatim>\<open>Number.prototype.toExponential\<close>.
\<close>

datatype js_number = JsFinite rat | JsNaN | JsPosInfinity | JsNegInfinity

text \<open>
  What the field \<^verbatim>\<open>v\<close> of a Python number holds. Skulpt holds an \<^verbatim>\<open>int\<close> within the
  safe-integer range as a JavaScript number and a larger one as a BigInt; a \<^verbatim>\<open>float\<close>
  and a \<^verbatim>\<open>bool\<close> always hold a JavaScript number.
\<close>

datatype js_value = JsNumber js_number | JsBigInt int

text \<open>
  Exceptions of the interpreter, by class, with their message. \<open>EvaluationError\<close> is
  what the engine signals when it cannot evaluate a command; \<open>UnknownTypeError\<close> is
  the Type Registry's failure; \<open>OtherError\<close> is a Python exception of any other class,
  with the name of the class, as a script may raise it; \<open>HostTypeError\<close> is not a Python
  exception but a \<^verbatim>\<open>TypeError\<close> of JavaScript itself, thrown by the host.
\<close>

datatype error =
    TypeError string
  | RuntimeError string
  | AttributeError string
  | UnknownTypeError string
  | EvaluationError string
  | OtherError string string
  | HostTypeError string

text \<open>
  A Skulpt object (\<^verbatim>\<open>SkObject\<close>): a Python number carries its JavaScript value in the
  field \<^verbatim>\<open>v\<close>; a wrapped GeoGebra object (\<^verbatim>\<open>SkGgbObject\<close>) is the one kind of object
  that has the field \<^verbatim>\<open>$ggbLabel\<close>; \<open>PyInstance\<close> is an instance of a class that the
  script defines (deriving from none of the classes above), known by its identity.
\<close>

datatype sk_object =
    PyInt js_value
  | PyFloat js_number
  | PyBool bool
  | PyStr string
  | PyNone
  | PyList "sk_object list"
  | GgbObject (ggbLabel: string)
  | PyInstance nat

text \<open>
  The field \<^verbatim>\<open>v\<close> of a Python number. Skulpt's \<^verbatim>\<open>bool\<close> is a subclass of
  \<^verbatim>\<open>int\<close> whose two instances hold 1 and 0.
\<close>

fun number_v :: "sk_object \<Rightarrow> js_value option" where
  "number_v (PyInt v) = Some v"
| "number_v (PyFloat n) = Some (JsNumber n)"
| "number_v (PyBool b) = Some (JsNumber (JsFinite (if b then 1 else 0)))"
| "number_v (PyStr s) = None"
| "number_v PyNone = None"
| "number_v (PyList xs) = None"
| "number_v (GgbObject l) = None"
| "number_v (PyInstance i) = None"

text \<open>\<^verbatim>\<open>Sk.builtin.checkNumber\<close>: an instance of \<^verbatim>\<open>int\<close> or \<^verbatim>\<open>float\<close>.\<close>

definition checkNumber :: "sk_object \<Rightarrow> bool" where
  "checkNumber x = (number_v x \<noteq> None)"

text \<open>\<^verbatim>\<open>Sk.builtin.checkString\<close>.\<close>

fun checkString :: "sk_object \<Rightarrow> bool" where
  "checkString (PyStr s) = True"
| "checkString (PyInt n) = False"
| "checkString (PyFloat n) = False"
| "checkString (PyBool b) = False"
| "checkString PyNone = False"
| "checkString (PyList xs) = False"
| "checkString (GgbObject l) = False"
| "checkString (PyInstance i) = False"

text \<open>
  \<^verbatim>\<open>Sk.misceval.isTrue\<close>: Python truthiness. For a value of a built-in class the
  answer is fixed: a number is true unless it is zero (NaN is true), a string or a list
  unless it is empty, \<^verbatim>\<open>None\<close> is false.
\<close>

fun builtin_truth :: "sk_object \<Rightarrow> bool option" where
  "builtin_truth (PyBool b) = Some b"
| "builtin_truth PyNone = Some False"
| "builtin_truth (PyInt (JsNumber n)) = Some (n \<noteq> JsFinite 0)"
| "builtin_truth (PyInt (JsBigInt i)) = Some (i \<noteq> 0)"
| "builtin_truth (PyFloat n) = Some (n \<noteq> JsFinite 0)"
| "builtin_truth (PyStr s) = Some (s \<noteq> [])"
| "builtin_truth (PyList xs) = Some (xs \<noteq> [])"
| "builtin_truth (GgbObject l) = None"
| "builtin_truth (PyInstance i) = None"

text \<open>
  For any other object \<^verbatim>\<open>isTrue\<close> runs the object's own \<^verbatim>\<open>__bool__\<close> or
  \<^verbatim>\<open>__len__\<close>, if it has one: code of the script (or, for a wrapped object, slots of
  its wrapper class, which are not among the sources). That call is the interpreter's:
  it is the parameter \<open>truth\<close>, which may change the state and may raise.
\<close>

definition isTrue ::
  "(sk_object \<Rightarrow> 's \<Rightarrow> (error + bool) \<times> 's) \<Rightarrow> sk_object \<Rightarrow> 's \<Rightarrow> (error + bool) \<times> 's" where
  "isTrue truth x st =
     (case builtin_truth x of
        Some b \<Rightarrow> (Inr b, st)
      | None \<Rightarrow> truth x st)"

section \<open>The engine's API\<close>

text \<open>
  \<^verbatim>\<open>GgbApi\<close>: the operations of the engine that the bridge calls, over an engine state
  \<open>'e\<close> that the bridge never inspects. A getter reads the state; a mutator returns the
  new one; evaluating a command returns the new label, or an evaluation error, and the
  new state. The two mutators that the bridge calls with the field \<^verbatim>\<open>v\<close> of a Python
  number receive whatever that field holds.
\<close>

record 'e ggb_api =
  getObjectType :: "string \<Rightarrow> 'e \<Rightarrow> string"
  evalCommandGetLabels :: "string \<Rightarrow> 'e \<Rightarrow> (error + string) \<times> 'e"
  getVisible :: "string \<Rightarrow> 'e \<Rightarrow> bool"
  setVisible :: "string \<Rightarrow> bool \<Rightarrow> 'e \<Rightarrow> 'e"
  isIndependent :: "string \<Rightarrow> 'e \<Rightarrow> bool"
  getColor :: "string \<Rightarrow> 'e \<Rightarrow> string"
  setColor :: "string \<Rightarrow> js_number \<Rightarrow> js_number \<Rightarrow> js_number \<Rightarrow> 'e \<Rightarrow> 'e"
  getPointSize :: "string \<Rightarrow> 'e \<Rightarrow> js_number"
  setPointSize :: "string \<Rightarrow> js_value \<Rightarrow> 'e \<Rightarrow> 'e"
  getLineThickness :: "string \<Rightarrow> 'e \<Rightarrow> js_number"
  setLineThickness :: "string \<Rightarrow> js_value \<Rightarrow> 'e \<Rightarrow> 'e"

section \<open>Numeric encoding\<close>

text \<open>
  \<^verbatim>\<open>String.prototype.split\<close> with a one-character separator: the pieces between the
  occurrences of the separator; a string without the separator is its own single piece.
\<close>

fun js_split :: "char \<Rightarrow> string \<Rightarrow> string list" where
  "js_split c [] = [[]]"
| "js_split c (x # xs) =
     (if x = c then [] # js_split c xs
      else (case js_split c xs of
              p # ps \<Rightarrow> (x # p) # ps
            | [] \<Rightarrow> [[x]]))"

text \<open>
  The array destructuring \<^verbatim>\<open>const [sig, exp] = parts\<close> followed by the template
  literal: a missing second piece is \<^verbatim>\<open>undefined\<close>, which the template prints as the
  word.
\<close>

definition template_sig_exp :: "string list \<Rightarrow> string" where
  "template_sig_exp parts =
     (let sig = (case parts of [] \<Rightarrow> ''undefined'' | s # _ \<Rightarrow> s);
          exp = (case parts of _ # e # _ \<Rightarrow> e | _ \<Rightarrow> ''undefined'')
      in ''('' @ sig @ ''*10^('' @ exp @ ''))'')"

text \<open>
  \<^verbatim>\<open>strOfNumber\<close>. \<^verbatim>\<open>Number.prototype.toExponential\<close> is the host's; it is a parameter.
\<close>

definition strOfNumber :: "(js_number \<Rightarrow> string) \<Rightarrow> js_number \<Rightarrow> string" where
  "strOfNumber toExponential x =
     (let jsStr = toExponential x
      in template_sig_exp (js_split CHR ''e'' jsStr))"

section \<open>Recognising wrapped objects\<close>

text \<open>\<^verbatim>\<open>_isGgbObject\<close>: the object has the field \<^verbatim>\<open>$ggbLabel\<close>.\<close>

fun has_ggbLabel :: "sk_object \<Rightarrow> bool" where
  "has_ggbLabel (GgbObject l) = True"
| "has_ggbLabel (PyInt n) = False"
| "has_ggbLabel (PyFloat n) = False"
| "has_ggbLabel (PyBool b) = False"
| "has_ggbLabel (PyStr s) = False"
| "has_ggbLabel PyNone = False"
| "has_ggbLabel (PyList xs) = False"
| "has_ggbLabel (PyInstance i) = False"

text \<open>\<^verbatim>\<open>isGgbObject\<close>, with its optional \<^verbatim>\<open>requiredType\<close>.\<close>

definition isGgbObject :: "'e ggb_api \<Rightarrow> sk_object \<Rightarrow> string option \<Rightarrow> 'e \<Rightarrow> bool" where
  "isGgbObject ggbApi obj requiredType st =
     (if \<not> has_ggbLabel obj then False
      else (case requiredType of
              None \<Rightarrow> True
            | Some required \<Rightarrow>
                (let gotType = getObjectType ggbApi (ggbLabel obj) st
                 in gotType = required)))"

text \<open>\<^verbatim>\<open>everyElementIsGgbObject\<close>.\<close>

definition everyElementIsGgbObject :: "sk_object list \<Rightarrow> bool" where
  "everyElementIsGgbObject objs = list_all has_ggbLabel objs"

text \<open>\<^verbatim>\<open>isPythonOrGgbNumber\<close>.\<close>

definition isPythonOrGgbNumber :: "'e ggb_api \<Rightarrow> sk_object \<Rightarrow> 'e \<Rightarrow> bool" where
  "isPythonOrGgbNumber ggbApi obj st =
     (checkNumber obj \<or> isGgbObject ggbApi obj (Some ''numeric'') st)"

text \<open>
  \<^verbatim>\<open>numberValueOrLabel\<close>: the label of a \<^verbatim>\<open>numeric\<close> object, the literal of a Python
  number, and otherwise the function throws. \<^verbatim>\<open>x.v.toExponential()\<close> is a method of a
  JavaScript number; where \<^verbatim>\<open>x.v\<close> is a BigInt there is no such method and the call
  throws JavaScript's \<^verbatim>\<open>TypeError\<close>.
\<close>

definition numberValueOrLabel ::
  "(js_number \<Rightarrow> string) \<Rightarrow> 'e ggb_api \<Rightarrow> sk_object \<Rightarrow> 'e \<Rightarrow> error + string" where
  "numberValueOrLabel toExponential ggbApi x st =
     (if isGgbObject ggbApi x (Some ''numeric'') st then Inr (ggbLabel x)
      else if checkNumber x then
        (case the (number_v x) of
           JsNumber n \<Rightarrow>
             (let jsStr = toExponential n
              in Inr (template_sig_exp (js_split CHR ''e'' jsStr)))
         | JsBigInt i \<Rightarrow> Inl (HostTypeError ''x.v.toExponential is not a function''))
      else Inl (RuntimeError ''internal error: not Number or number''))"

section \<open>Runtime type assertions\<close>

text \<open>
  The \<^verbatim>\<open>throwIfNot...\<close> assertions: the exception thrown, or \<open>None\<close> when the
  assertion passes.
\<close>

definition throwIfNotGgbObject :: "sk_object \<Rightarrow> string \<Rightarrow> error option" where
  "throwIfNotGgbObject obj objName =
     (if \<not> has_ggbLabel obj then Some (TypeError (objName @ '' must be a GeoGebra object''))
      else None)"

definition throwIfNotString :: "sk_object \<Rightarrow> string \<Rightarrow> error option" where
  "throwIfNotString pyObj objName =
     (if \<not> checkString pyObj then Some (TypeError (objName @ '' must be a string''))
      else None)"

definition throwIfNotNumber :: "sk_object \<Rightarrow> string \<Rightarrow> error option" where
  "throwIfNotNumber pyObj objName =
     (if \<not> checkNumber pyObj then Some (TypeError (objName @ '' must be a number''))
      else None)"

section \<open>Setting properties from keyword arguments\<close>

text \<open>
  An element of the \<^verbatim>\<open>Array<string | SkObject>\<close> in which Skulpt passes keyword
  arguments to a \<^verbatim>\<open>FastCall\<close> method: names and values alternate.
\<close>

datatype kw_item = KwName string | KwValue sk_object

text \<open>
  \<^verbatim>\<open>propNamesValues[i] as string\<close> and \<^verbatim>\<open>propNamesValues[i + 1] as SkObject\<close>. The
  casts are unchecked; the model has a value exactly where the element is there and is
  of the kind the cast names.
\<close>

definition propNameAt :: "kw_item list \<Rightarrow> nat \<Rightarrow> string option" where
  "propNameAt arr i =
     (if i < length arr then (case arr ! i of KwName s \<Rightarrow> Some s | KwValue v \<Rightarrow> None)
      else None)"

definition propValueAt :: "kw_item list \<Rightarrow> nat \<Rightarrow> sk_object option" where
  "propValueAt arr i =
     (if i < length arr then (case arr ! i of KwName s \<Rightarrow> None | KwValue v \<Rightarrow> Some v)
      else None)"

text \<open>
  The loop \<^verbatim>\<open>for (let i = 0; i !== propNamesValues.length; i += 2)\<close> of
  \<^verbatim>\<open>withPropertiesFromNameValuePairs\<close>, from index \<open>i\<close>. The attribute setter
  \<^verbatim>\<open>tp$setattr\<close> is the interpreter's: it is the parameter \<open>setattr\<close>, which may
  change the state and may throw. An exception leaves the loop with the state reached.
  The result is \<open>None\<close> where the loop does not return, and where a cast is wrong.
\<close>

partial_function (option) setattr_loop ::
  "(sk_object \<Rightarrow> sk_object \<Rightarrow> sk_object \<Rightarrow> 's \<Rightarrow> (error + unit) \<times> 's) \<Rightarrow>
   sk_object \<Rightarrow> kw_item list \<Rightarrow> nat \<Rightarrow> 's \<Rightarrow> ((error + unit) \<times> 's) option" where
  "setattr_loop setattr obj propNamesValues i st =
     (if i = length propNamesValues then Some (Inr (), st)
      else (case (propNameAt propNamesValues i, propValueAt propNamesValues (i + 1)) of
              (Some propName, Some propValue) \<Rightarrow>
                (let propPyName = PyStr propName
                 in (case setattr obj propPyName propValue st of
                       (Inl e, st') \<Rightarrow> Some (Inl e, st')
                     | (Inr u, st') \<Rightarrow> setattr_loop setattr obj propNamesValues (i + 2) st'))
            | _ \<Rightarrow> None))"

declare setattr_loop.simps [code]

text \<open>\<^verbatim>\<open>withPropertiesFromNameValuePairs\<close>, with its optional array.\<close>

definition withPropertiesFromNameValuePairs ::
  "(sk_object \<Rightarrow> sk_object \<Rightarrow> sk_object \<Rightarrow> 's \<Rightarrow> (error + unit) \<times> 's) \<Rightarrow>
   sk_object \<Rightarrow> kw_item list option \<Rightarrow> 's \<Rightarrow> ((error + sk_object) \<times> 's) option" where
  "withPropertiesFromNameValuePairs setattr obj propNamesValuesOpt st =
     (let propNamesValues = (case propNamesValuesOpt of None \<Rightarrow> [] | Some a \<Rightarrow> a)
      in if length propNamesValues mod 2 \<noteq> 0
         then Some (Inl (RuntimeError ''internal error: propNamesValues not in pairs''), st)
         else (case setattr_loop setattr obj propNamesValues 0 st of
                 None \<Rightarrow> None
               | Some (Inl e, st') \<Rightarrow> Some (Inl e, st')
               | Some (Inr u, st') \<Rightarrow> Some (Inr obj, st')))"

text \<open>The Python method \<^verbatim>\<open>with_properties\<close> of \<^verbatim>\<open>withPropertiesMethodsSlice\<close>.\<close>

definition with_properties ::
  "(sk_object \<Rightarrow> sk_object \<Rightarrow> sk_object \<Rightarrow> 's \<Rightarrow> (error + unit) \<times> 's) \<Rightarrow>
   sk_object \<Rightarrow> sk_object list \<Rightarrow> kw_item list \<Rightarrow> 's \<Rightarrow> ((error + sk_object) \<times> 's) option" where
  "with_properties setattr this args kwargs st =
     (if length args \<noteq> 0 then Some (Inl (TypeError ''only kwargs''), st)
      else withPropertiesFromNameValuePairs setattr this (Some kwargs) st)"

section \<open>Wrapping a label\<close>

text \<open>
  \<^verbatim>\<open>WrapExistingCtorSpec\<close>: the one shape, tagged \<^verbatim>\<open>"wrap-existing"\<close>, holding the
  label.
\<close>

datatype wrap_existing_ctor_spec = WrapExisting string

text \<open>
  Modelled from the spec: \<^verbatim>\<open>wrapExistingGgbObject\<close> is imported from
  \<^verbatim>\<open>./type-registry\<close>, which is not among the sources. The spec (4.1): it looks up
  the engine-reported type tag for the label, then the constructor registered for that
  tag, and invokes it; it fails with \<open>UnknownTypeError\<close> if no constructor is
  registered for the reported tag. The registry is the map from tags to constructors.
\<close>

definition wrapExistingGgbObject ::
  "(string \<rightharpoonup> (wrap_existing_ctor_spec \<Rightarrow> sk_object)) \<Rightarrow> 'e ggb_api \<Rightarrow> string \<Rightarrow> 'e \<Rightarrow>
   error + sk_object" where
  "wrapExistingGgbObject registry ggbApi label st =
     (let tag = getObjectType ggbApi label st
      in (case registry tag of
            None \<Rightarrow> Inl (UnknownTypeError tag)
          | Some ctor \<Rightarrow> Inr (ctor (WrapExisting label))))"

text \<open>The Python method \<^verbatim>\<open>free_copy\<close> of \<^verbatim>\<open>freeCopyMethodsSlice\<close>.\<close>

definition free_copy ::
  "(string \<rightharpoonup> (wrap_existing_ctor_spec \<Rightarrow> sk_object)) \<Rightarrow> 'e ggb_api \<Rightarrow> sk_object \<Rightarrow> 'e \<Rightarrow>
   (error + sk_object) \<times> 'e" where
  "free_copy registry ggbApi this st =
     (let ggbCmd = ''CopyFreeObject('' @ ggbLabel this @ '')''
      in (case evalCommandGetLabels ggbApi ggbCmd st of
            (Inl e, st') \<Rightarrow> (Inl e, st')
          | (Inr label, st') \<Rightarrow> (wrapExistingGgbObject registry ggbApi label st', st')))"

section \<open>Shared properties\<close>

text \<open>
  The accessors of \<^verbatim>\<open>sharedGetSets\<close>. The receiver \<^verbatim>\<open>this\<close> is a wrapped object
  (\<^verbatim>\<open>SkGgbObject\<close>). A getter returns the Python value it builds; a setter returns the
  exception it throws, or the engine state after its call of the mutator. The setter of
  \<^verbatim>\<open>is_visible\<close> calls \<^verbatim>\<open>Sk.misceval.isTrue\<close>, which may run code of the script: it
  returns the state reached in either case.
\<close>

definition is_visible_get :: "'e ggb_api \<Rightarrow> sk_object \<Rightarrow> 'e \<Rightarrow> sk_object" where
  "is_visible_get ggbApi this st = PyBool (getVisible ggbApi (ggbLabel this) st)"

definition is_visible_set ::
  "(sk_object \<Rightarrow> 'e \<Rightarrow> (error + bool) \<times> 'e) \<Rightarrow> 'e ggb_api \<Rightarrow> sk_object \<Rightarrow> sk_object \<Rightarrow> 'e \<Rightarrow>
   (error + unit) \<times> 'e" where
  "is_visible_set truth ggbApi this pyIsVisible st =
     (case isTrue truth pyIsVisible st of
        (Inl e, st') \<Rightarrow> (Inl e, st')
      | (Inr isVisible, st') \<Rightarrow> (Inr (), setVisible ggbApi (ggbLabel this) isVisible st'))"

definition is_independent_get :: "'e ggb_api \<Rightarrow> sk_object \<Rightarrow> 'e \<Rightarrow> sk_object" where
  "is_independent_get ggbApi this st = PyBool (isIndependent ggbApi (ggbLabel this) st)"

definition color_get :: "'e ggb_api \<Rightarrow> sk_object \<Rightarrow> 'e \<Rightarrow> sk_object" where
  "color_get ggbApi this st =
     (let color = getColor ggbApi (ggbLabel this) st in PyStr color)"

text \<open>
  \<^verbatim>\<open>parseColorOrFail\<close> is imported from \<^verbatim>\<open>./color\<close>, which is not among the sources:
  it is a parameter, returning the exception it throws or the three components.
\<close>

definition color_set ::
  "(string \<Rightarrow> error + js_number \<times> js_number \<times> js_number) \<Rightarrow>
   'e ggb_api \<Rightarrow> sk_object \<Rightarrow> sk_object \<Rightarrow> 'e \<Rightarrow> error + 'e" where
  "color_set parseColorOrFail ggbApi this pyColor st =
     (case throwIfNotString pyColor ''color'' of
        Some e \<Rightarrow> Inl e
      | None \<Rightarrow>
          (case parseColorOrFail (case pyColor of PyStr s \<Rightarrow> s | _ \<Rightarrow> []) of
             Inl e \<Rightarrow> Inl e
           | Inr (r, g, b) \<Rightarrow> Inr (setColor ggbApi (ggbLabel this) r g b st)))"

definition size_get :: "'e ggb_api \<Rightarrow> sk_object \<Rightarrow> 'e \<Rightarrow> sk_object" where
  "size_get ggbApi this st = PyFloat (getPointSize ggbApi (ggbLabel this) st)"

definition size_set :: "'e ggb_api \<Rightarrow> sk_object \<Rightarrow> sk_object \<Rightarrow> 'e \<Rightarrow> error + 'e" where
  "size_set ggbApi this pySize st =
     (case throwIfNotNumber pySize ''size must be a number'' of
        Some e \<Rightarrow> Inl e
      | None \<Rightarrow> Inr (setPointSize ggbApi (ggbLabel this) (the (number_v pySize)) st))"

definition line_thickness_get :: "'e ggb_api \<Rightarrow> sk_object \<Rightarrow> 'e \<Rightarrow> sk_object" where
  "line_thickness_get ggbApi this st =
     PyInt (JsNumber (getLineThickness ggbApi (ggbLabel this) st))"

definition line_thickness_set :: "'e ggb_api \<Rightarrow> sk_object \<Rightarrow> sk_object \<Rightarrow> 'e \<Rightarrow> error + 'e" where
  "line_thickness_set ggbApi this pyThickness st =
     (case throwIfNotNumber pyThickness ''line_thickness must be a number'' of
        Some e \<Rightarrow> Inl e
      | None \<Rightarrow> Inr (setLineThickness ggbApi (ggbLabel this) (the (number_v pyThickness)) st))"

section \<open>The script-facing function Rotate\<close>

text \<open>
  The function that \<^verbatim>\<open>register\<close> installs as \<^verbatim>\<open>mod.Rotate\<close>. Its \<^verbatim>\<open>ggb\<close> is
  \<^verbatim>\<open>augmentedGgbApi(appApi.ggb)\<close>: \<^verbatim>\<open>ggb.isGgbObject\<close>, \<^verbatim>\<open>ggb.numberValueOrLabel\<close>
  and \<^verbatim>\<open>ggb.wrapExistingGgbObject\<close> are the functions above with the engine's API
  fixed, and \<^verbatim>\<open>ggb.evalCmd\<close> is \<^verbatim>\<open>evalCommandGetLabels\<close>. The sources do not hold
  \<^verbatim>\<open>ggb.throwIfNotPyOrGgbNumber\<close> and \<^verbatim>\<open>assembledCommand\<close>: they are parameters, the
  first returning the exception it throws, if any.
\<close>

definition Rotate ::
  "(sk_object \<Rightarrow> string \<Rightarrow> 'e \<Rightarrow> error option) \<Rightarrow> (string \<Rightarrow> string list \<Rightarrow> string) \<Rightarrow>
   (js_number \<Rightarrow> string) \<Rightarrow> (string \<rightharpoonup> (wrap_existing_ctor_spec \<Rightarrow> sk_object)) \<Rightarrow>
   'e ggb_api \<Rightarrow> sk_object list \<Rightarrow> 'e \<Rightarrow> (error + sk_object) \<times> 'e" where
  "Rotate throwIfNotPyOrGgbNumber assembledCommand toExponential registry ggbApi args st =
     (let badArgsError = TypeError (''Rotate() arguments must be'' @ '' (object, angle)'' @
            '' or (object, angle, rotation_center_point)'')
      in if length args = 2 then
           (if \<not> isGgbObject ggbApi (args ! 0) None st then (Inl badArgsError, st)
            else
              (let pyAngle = args ! 1
               in (case throwIfNotPyOrGgbNumber pyAngle ''rotation angle'' st of
                     Some e \<Rightarrow> (Inl e, st)
                   | None \<Rightarrow>
                       (case numberValueOrLabel toExponential ggbApi pyAngle st of
                          Inl e \<Rightarrow> (Inl e, st)
                        | Inr angleArg \<Rightarrow>
                            (let ggbArgs = [ggbLabel (args ! 0), angleArg];
                                 ggbCmd = assembledCommand ''Rotate'' ggbArgs
                             in (case evalCommandGetLabels ggbApi ggbCmd st of
                                   (Inl e, st') \<Rightarrow> (Inl e, st')
                                 | (Inr label, st') \<Rightarrow>
                                     (wrapExistingGgbObject registry ggbApi label st', st')))))))
         else (Inl badArgsError, st))"

section \<open>Observing the commands submitted\<close>

text \<open>
  An engine API that behaves as the given one and also keeps the list of the commands
  submitted for evaluation, in order. The bridge run against it shows which commands it
  submits.
\<close>

definition recording :: "'e ggb_api \<Rightarrow> (string list \<times> 'e) ggb_api" where
  "recording api =
     \<lparr> getObjectType = (\<lambda>l (log, s). getObjectType api l s),
       evalCommandGetLabels =
         (\<lambda>cmd (log, s). (case evalCommandGetLabels api cmd s of (r, s') \<Rightarrow> (r, (log @ [cmd], s')))),
       getVisible = (\<lambda>l (log, s). getVisible api l s),
       setVisible = (\<lambda>l b (log, s). (log, setVisible api l b s)),
       isIndependent = (\<lambda>l (log, s). isIndependent api l s),
       getColor = (\<lambda>l (log, s). getColor api l s),
       setColor = (\<lambda>l r g b (log, s). (log, setColor api l r g b s)),
       getPointSize = (\<lambda>l (log, s). getPointSize api l s),
       setPointSize = (\<lambda>l n (log, s). (log, setPointSize api l n s)),
       getLineThickness = (\<lambda>l (log, s). getLineThickness api l s),
       setLineThickness = (\<lambda>l n (log, s). (log, setLineThickness api l n s)) \<rparr>"

section \<open>The update listeners\<close>

text \<open>
  Modelled from the spec: the sources hold only the interface of a wrapped object
  (\<^verbatim>\<open>$updateHandlers\<close>, \<^verbatim>\<open>$fireUpdateEvents\<close>), not the code that registers and fires.
  The spec (4.5): \<^verbatim>\<open>register(wrapper, callback)\<close> appends to that object's ordered
  handler list; \<^verbatim>\<open>fire(wrapper, ...args)\<close> invokes every currently-registered
  handler, in registration order, with the given arguments; handler exceptions
  propagate; firing on a deleted object is a no-op; firing takes a snapshot of the
  handler list at the start of the pass.

  The script's state holds the handler list of every wrapper \<open>'w\<close> and which wrappers'
  objects are deleted. Calling a handler \<open>'h\<close> is the interpreter's: it is the parameter
  \<open>call\<close>, which may change the whole state (the handler lists too) and may throw.
\<close>

record ('w, 'h, 'x) script_state =
  updateHandlers :: "'w \<Rightarrow> 'h list"
  deleted :: "'w \<Rightarrow> bool"
  script_rest :: 'x

definition register_listener ::
  "'w \<Rightarrow> 'h \<Rightarrow> ('w, 'h, 'x) script_state \<Rightarrow> ('w, 'h, 'x) script_state" where
  "register_listener w callback st =
     st\<lparr>updateHandlers := (updateHandlers st)(w := updateHandlers st w @ [callback])\<rparr>"

fun run_handlers ::
  "('h \<Rightarrow> 'a \<Rightarrow> 's \<Rightarrow> (error + unit) \<times> 's) \<Rightarrow> 'h list \<Rightarrow> 'a \<Rightarrow> 's \<Rightarrow> (error + unit) \<times> 's" where
  "run_handlers call [] args st = (Inr (), st)"
| "run_handlers call (h # hs) args st =
     (case call h args st of
        (Inl e, st') \<Rightarrow> (Inl e, st')
      | (Inr u, st') \<Rightarrow> run_handlers call hs args st')"

definition fire ::
  "('h \<Rightarrow> 'a \<Rightarrow> ('w, 'h, 'x) script_state \<Rightarrow> (error + unit) \<times> ('w, 'h, 'x) script_state) \<Rightarrow>
   'w \<Rightarrow> 'a \<Rightarrow> ('w, 'h, 'x) script_state \<Rightarrow> (error + unit) \<times> ('w, 'h, 'x) script_state" where
  "fire call w args st =
     (if deleted st w then (Inr (), st)
      else (let snapshot = updateHandlers st w in run_handlers call snapshot args st))"

section \<open>Start-up dependencies\<close>

datatype BootStatus = BootIdle | BootRunning | BootDone

text \<open>The state of \<^verbatim>\<open>dependencies\<close>; \<^verbatim>\<open>ggbApi\<close> is \<^verbatim>\<open>null\<close> until it is set.\<close>

record 'api Dependencies =
  bootStatus :: BootStatus
  ggbApi_slot :: "'api option"
  ggbPythonModuleText :: string

definition dependencies :: "'api Dependencies" where
  "dependencies = \<lparr> bootStatus = BootIdle, ggbApi_slot = None, ggbPythonModuleText = [] \<rparr>"

definition allReady :: "'api Dependencies \<Rightarrow> bool" where
  "allReady s = (ggbApi_slot s \<noteq> None \<and> ggbPythonModuleText s \<noteq> [])"

definition setBootStatus :: "BootStatus \<Rightarrow> 'api Dependencies \<Rightarrow> 'api Dependencies" where
  "setBootStatus status s = s\<lparr>bootStatus := status\<rparr>"

definition setGgbApi :: "'api \<Rightarrow> 'api Dependencies \<Rightarrow> 'api Dependencies" where
  "setGgbApi api s = s\<lparr>ggbApi_slot := Some api\<rparr>"

definition setGgbPythonModuleText :: "string \<Rightarrow> 'api Dependencies \<Rightarrow> 'api Dependencies" where
  "setGgbPythonModuleText moduleText s = s\<lparr>ggbPythonModuleText := moduleText\<rparr>"

text \<open>
  The thunk \<^verbatim>\<open>boot\<close> is an \<^verbatim>\<open>async\<close> function: it runs in segments, each from one
  \<^verbatim>\<open>await\<close> to the next, and no other code runs inside a segment. A call of
  \<^verbatim>\<open>boot\<close> is at one of these places: called and not yet run; waiting for
  \<^verbatim>\<open>fetch\<close>; waiting for \<^verbatim>\<open>response.text()\<close>; waiting for
  \<^verbatim>\<open>db.ensureUserFilesNonEmpty()\<close>; returned at the guard; returned at the end; or
  ended by the rejection of a promise it awaited.
\<close>

datatype boot_pc =
  Called | AwaitFetch | AwaitText | AwaitDb | ReturnedEarly | Completed | Failed

text \<open>How an awaited promise settles: fulfilled (with the text, for the one that has one) or rejected.\<close>

datatype settled = Fulfilled string | RejectedPromise

text \<open>One segment of \<^verbatim>\<open>boot\<close>: from the place \<open>pc\<close>, given how the awaited promise settled.\<close>

fun boot :: "boot_pc \<Rightarrow> settled \<Rightarrow> 'api Dependencies \<Rightarrow> boot_pc \<times> 'api Dependencies" where
  "boot Called r s =
     (let status = bootStatus s
      in if status \<noteq> BootIdle then (ReturnedEarly, s)
         else (AwaitFetch, setBootStatus BootRunning s))"
| "boot AwaitFetch (Fulfilled response) s = (AwaitText, s)"
| "boot AwaitFetch RejectedPromise s = (Failed, s)"
| "boot AwaitText (Fulfilled text) s = (AwaitDb, setGgbPythonModuleText text s)"
| "boot AwaitText RejectedPromise s = (Failed, s)"
| "boot AwaitDb (Fulfilled u) s = (Completed, setBootStatus BootDone s)"
| "boot AwaitDb RejectedPromise s = (Failed, s)"
| "boot ReturnedEarly r s = (ReturnedEarly, s)"
| "boot Completed r s = (Completed, s)"
| "boot Failed r s = (Failed, s)"

text \<open>
  The application around it: the dependency state and the calls of \<^verbatim>\<open>boot\<close> made so
  far. Something calls \<^verbatim>\<open>boot\<close>; the \<open>i\<close>-th call runs its next segment; or the
  action \<^verbatim>\<open>setGgbApi\<close> is dispatched. \<^verbatim>\<open>boot\<close> is the only code of the sources that
  dispatches \<^verbatim>\<open>setBootStatus\<close> and \<^verbatim>\<open>setGgbPythonModuleText\<close>.
\<close>

datatype 'api app_event = Invoke | Resume nat settled | DispatchSetGgbApi 'api

fun app_step ::
  "'api app_event \<Rightarrow> 'api Dependencies \<times> boot_pc list \<Rightarrow> 'api Dependencies \<times> boot_pc list" where
  "app_step Invoke (s, calls) = (s, calls @ [Called])"
| "app_step (Resume i r) (s, calls) =
     (if i < length calls
      then (case boot (calls ! i) r s of (pc', s') \<Rightarrow> (s', calls[i := pc']))
      else (s, calls))"
| "app_step (DispatchSetGgbApi api) (s, calls) = (setGgbApi api s, calls)"

definition app_run :: "'api app_event list \<Rightarrow> 'api Dependencies \<times> boot_pc list" where
  "app_run evs = fold app_step evs (dependencies, [])"

text \<open>The calls that went past the guard, and how \<^verbatim>\<open>bootStatus\<close> may change in one step.\<close>

fun past_guard :: "boot_pc \<Rightarrow> bool" where
  "past_guard Called = False"
| "past_guard ReturnedEarly = False"
| "past_guard AwaitFetch = True"
| "past_guard AwaitText = True"
| "past_guard AwaitDb = True"
| "past_guard Completed = True"
| "past_guard Failed = True"

fun status_step :: "BootStatus \<Rightarrow> BootStatus \<Rightarrow> bool" where
  "status_step BootIdle BootRunning = True"
| "status_step BootRunning BootDone = True"
| "status_step a b = (a = b)"

section \<open>A reference host and engine\<close>

text \<open>
  Concrete stand-ins for the two collaborators, on which the definitions above can be
  run. \<^verbatim>\<open>toExponential\<close> on an integer below \<open>2^53\<close> in magnitude prints its decimal
  digits without the trailing zeros, a point after the first, and the exponent with its
  sign; on the non-finite values it prints their names. These are the only inputs it is
  run on here: of any other finite value the stand-in prints the integer part, which is
  not what the host prints.
\<close>

fun decimal_digits :: "nat \<Rightarrow> string" where
  "decimal_digits n =
     (if n < 10 then [''0123456789'' ! n]
      else decimal_digits (n div 10) @ [''0123456789'' ! (n mod 10)])"

definition strip_trailing_zeros :: "string \<Rightarrow> string" where
  "strip_trailing_zeros ds = rev (dropWhile (\<lambda>c. c = CHR ''0'') (rev ds))"

definition toExponential_int :: "int \<Rightarrow> string" where
  "toExponential_int n =
     (let ds = decimal_digits (nat \<bar>n\<bar>);
          frac = strip_trailing_zeros (tl ds)
      in (if n < 0 then ''-'' else []) @ [hd ds] @ (if frac = [] then [] else ''.'' @ frac) @
         ''e+'' @ decimal_digits (length ds - 1))"

fun toExponential_ref :: "js_number \<Rightarrow> string" where
  "toExponential_ref (JsFinite r) = toExponential_int \<lfloor>r\<rfloor>"
| "toExponential_ref JsNaN = ''NaN''"
| "toExponential_ref JsPosInfinity = ''Infinity''"
| "toExponential_ref JsNegInfinity = ''-Infinity''"

text \<open>
  The reference engine keeps, for every live label, the type tag and the attributes of
  its object. A getter on a label that is not live returns a default, a mutator on it
  does nothing, and so does a mutator given a value that is not a JavaScript number. The one command it evaluates is \<^verbatim>\<open>CopyFreeObject(label)\<close>, also written
  with square brackets: it adds an independent object with the same tag and attributes
  under a label not in use, and returns that label.
\<close>

record geo_object =
  go_type :: string
  go_visible :: bool
  go_color :: string
  go_size :: js_number
  go_thickness :: js_number
  go_independent :: bool

type_synonym construction = "(string \<times> geo_object) list"

definition modify :: "string \<Rightarrow> (geo_object \<Rightarrow> geo_object) \<Rightarrow> construction \<Rightarrow> construction" where
  "modify l f st = map (\<lambda>(k, ob). if k = l then (k, f ob) else (k, ob)) st"

definition fresh_label :: "construction \<Rightarrow> string" where
  "fresh_label st = replicate (Suc (fold max (map (\<lambda>(k, ob). length k) st) 0)) CHR ''c''"

definition copy_argument :: "string \<Rightarrow> string option" where
  "copy_argument cmd =
     (if take 15 cmd = ''CopyFreeObject('' \<and> 15 < length cmd \<and> last cmd = CHR '')''
        \<or> take 15 cmd = ''CopyFreeObject['' \<and> 15 < length cmd \<and> last cmd = CHR '']''
      then Some (butlast (drop 15 cmd)) else None)"

definition ref_eval :: "string \<Rightarrow> construction \<Rightarrow> (error + string) \<times> construction" where
  "ref_eval cmd st =
     (case copy_argument cmd of
        None \<Rightarrow> (Inl (EvaluationError cmd), st)
      | Some l \<Rightarrow>
          (case map_of st l of
             None \<Rightarrow> (Inl (EvaluationError cmd), st)
           | Some ob \<Rightarrow> (Inr (fresh_label st), st @ [(fresh_label st, ob\<lparr>go_independent := True\<rparr>)])))"

definition ref_api :: "construction ggb_api" where
  "ref_api =
     \<lparr> getObjectType = (\<lambda>l st. case map_of st l of None \<Rightarrow> [] | Some ob \<Rightarrow> go_type ob),
       evalCommandGetLabels = ref_eval,
       getVisible = (\<lambda>l st. case map_of st l of None \<Rightarrow> False | Some ob \<Rightarrow> go_visible ob),
       setVisible = (\<lambda>l b. modify l (\<lambda>ob. ob\<lparr>go_visible := b\<rparr>)),
       isIndependent = (\<lambda>l st. case map_of st l of None \<Rightarrow> False | Some ob \<Rightarrow> go_independent ob),
       getColor = (\<lambda>l st. case map_of st l of None \<Rightarrow> [] | Some ob \<Rightarrow> go_color ob),
       setColor = (\<lambda>l r g b st. st),
       getPointSize = (\<lambda>l st. case map_of st l of None \<Rightarrow> JsNaN | Some ob \<Rightarrow> go_size ob),
       setPointSize = (\<lambda>l v. case v of JsNumber n \<Rightarrow> modify l (\<lambda>ob. ob\<lparr>go_size := n\<rparr>)
                                     | JsBigInt i \<Rightarrow> (\<lambda>st. st)),
       getLineThickness = (\<lambda>l st. case map_of st l of None \<Rightarrow> JsNaN | Some ob \<Rightarrow> go_thickness ob),
       setLineThickness = (\<lambda>l v. case v of JsNumber n \<Rightarrow> modify l (\<lambda>ob. ob\<lparr>go_thickness := n\<rparr>)
                                         | JsBigInt i \<Rightarrow> (\<lambda>st. st)) \<rparr>"

text \<open>A construction with a point \<open>A\<close> and a number \<open>n\<close>, and a registry for both tags.\<close>

definition ref_construction :: construction where
  "ref_construction =
     [(''A'', \<lparr> go_type = ''point'', go_visible = True, go_color = ''#0000FF'',
                go_size = JsFinite 5, go_thickness = JsFinite 1, go_independent = False \<rparr>),
      (''n'', \<lparr> go_type = ''numeric'', go_visible = False, go_color = ''#000000'',
                go_size = JsFinite 1, go_thickness = JsFinite 1, go_independent = True \<rparr>)]"

definition ref_registry :: "string \<rightharpoonup> (wrap_existing_ctor_spec \<Rightarrow> sk_object)" where
  "ref_registry =
     [''point'' \<mapsto> (\<lambda>spec. case spec of WrapExisting l \<Rightarrow> GgbObject l),
      ''numeric'' \<mapsto> (\<lambda>spec. case spec of WrapExisting l \<Rightarrow> GgbObject l)]"

text \<open>
  The truth of the objects that are not of a built-in class, in the reference host: the
  script's instance 0 has a \<^verbatim>\<open>__bool__\<close> that raises a \<^verbatim>\<open>ValueError\<close>, any other
  instance one that says whether its identity is even, and a wrapped object has none and
  is true. Then an attribute setter for a wrapper class whose properties are
  \<^verbatim>\<open>is_visible\<close> and \<^verbatim>\<open>size\<close> of the shared accessors; any other name is an
  \<open>AttributeError\<close>.
\<close>

definition ref_truth :: "sk_object \<Rightarrow> construction \<Rightarrow> (error + bool) \<times> construction" where
  "ref_truth x st =
     (case x of
        PyInstance i \<Rightarrow> (if i = 0 then (Inl (OtherError ''ValueError'' ''no truth value''), st)
                         else (Inr (even i), st))
      | _ \<Rightarrow> (Inr True, st))"

definition ref_setattr ::
  "sk_object \<Rightarrow> sk_object \<Rightarrow> sk_object \<Rightarrow> construction \<Rightarrow> (error + unit) \<times> construction" where
  "ref_setattr obj pyName v st =
     (if pyName = PyStr ''is_visible'' then is_visible_set ref_truth ref_api obj v st
      else if pyName = PyStr ''size'' then
        (case size_set ref_api obj v st of Inl e \<Rightarrow> (Inl e, st) | Inr st' \<Rightarrow> (Inr (), st'))
      else (Inl (AttributeError ''no such attribute''), st))"

section \<open>The specification's notions\<close>

text \<open>The result is an exception of the class \<open>TypeError\<close>.\<close>

fun raises_TypeError :: "error + 'a \<Rightarrow> bool" where
  "raises_TypeError (Inl (TypeError m)) = True"
| "raises_TypeError r = False"

text \<open>
  The command text grammar as the specification words it, \<^verbatim>\<open>Name[arg1,arg2,...]\<close>, and
  the same with round parentheses.
\<close>

fun comma_join :: "string list \<Rightarrow> string" where
  "comma_join [] = []"
| "comma_join [a] = a"
| "comma_join (a # b # rest) = a @ '','' @ comma_join (b # rest)"

definition bracket_command :: "string \<Rightarrow> string list \<Rightarrow> string" where
  "bracket_command name args = name @ ''['' @ comma_join args @ '']''"

definition paren_command :: "string \<Rightarrow> string list \<Rightarrow> string" where
  "paren_command name args = name @ ''('' @ comma_join args @ '')''"

text \<open>
  A text has the shape \<^verbatim>\<open>Name[...]\<close>: after the first opening square bracket it goes on
  to a closing square bracket at its end.
\<close>

definition bracket_form :: "string \<Rightarrow> bool" where
  "bracket_form cmd =
     (let rest = dropWhile (\<lambda>c. c \<noteq> CHR ''['') cmd
      in 2 \<le> length rest \<and> last rest = CHR '']'')"

text \<open>
  Modelled from the spec: the function of Rotate imports \<^verbatim>\<open>assembledCommand\<close> from
  \<^verbatim>\<open>../shared\<close>, and \<^verbatim>\<open>shared.ts\<close> as it is among the sources does not define it. The
  spec (4.2, 6): \<^verbatim>\<open>assemble(name, args) -> Command\<close>, a string of the form
  \<^verbatim>\<open>Name[arg1,arg2,...]\<close>.
\<close>

definition assemble :: "string \<Rightarrow> string list \<Rightarrow> string" where
  "assemble name args = name @ ''['' @ comma_join args @ '']''"

text \<open>
  Scientific notation as the host prints it for a finite number: a significand, which
  is an optional minus sign, one digit, and optionally a point and more digits; the
  letter e; and an exponent, which is a sign and digits.
\<close>

definition is_digit :: "char \<Rightarrow> bool" where
  "is_digit c = (c \<in> set ''0123456789'')"

definition significand_text :: "string \<Rightarrow> bool" where
  "significand_text s =
     (case (if take 1 s = ''-'' then drop 1 s else s) of
        [] \<Rightarrow> False
      | d # r \<Rightarrow> is_digit d \<and>
          (r = [] \<or> (take 1 r = ''.'' \<and> drop 1 r \<noteq> [] \<and> list_all is_digit (drop 1 r))))"

definition exponent_text :: "string \<Rightarrow> bool" where
  "exponent_text e =
     (case e of
        [] \<Rightarrow> False
      | sg # ds \<Rightarrow> (sg = CHR ''+'' \<or> sg = CHR ''-'') \<and> ds \<noteq> [] \<and> list_all is_digit ds)"

text \<open>
  The numeric encoding as the specification words it: of a number printed in scientific
  notation as significand \<^verbatim>\<open>s\<close> and exponent \<^verbatim>\<open>e\<close>, the literal \<^verbatim>\<open>(s*10^(e))\<close>. A text
  that is not such a notation has no encoding.
\<close>

definition spec_literal :: "string \<Rightarrow> string option" where
  "spec_literal printed =
     (let s = takeWhile (\<lambda>c. c \<noteq> CHR ''e'') printed;
          rest = dropWhile (\<lambda>c. c \<noteq> CHR ''e'') printed
      in if significand_text s \<and> rest \<noteq> [] \<and> exponent_text (tl rest)
         then Some (''('' @ s @ ''*10^('' @ tl rest @ ''))'')
         else None)"

text \<open>A text is of the encoded form \<^verbatim>\<open>(SIGNIFICAND*10^(EXPONENT))\<close>.\<close>

definition encoded_literal :: "string \<Rightarrow> bool" where
  "encoded_literal a =
     (case a of
        [] \<Rightarrow> False
      | c # r \<Rightarrow> c = CHR ''('' \<and>
          (let s = takeWhile (\<lambda>c. c \<noteq> CHR ''*'') r;
               r' = dropWhile (\<lambda>c. c \<noteq> CHR ''*'') r;
               e = drop 5 r'
           in significand_text s \<and> take 5 r' = ''*10^('' \<and> 2 \<le> length e \<and>
              drop (length e - 2) e = ''))'' \<and> exponent_text (take (length e - 2) e)))"

text \<open>
  An argument \<open>a\<close> of a command, made of the script value \<open>x\<close>, is an engine label or an
  encoded numeric literal: the label of \<open>x\<close>, a \<^verbatim>\<open>numeric\<close> object; or, for \<open>x\<close> a Python
  number that holds a JavaScript number which the host prints in scientific notation,
  the specification's literal of that notation, which is of the encoded form. Of a
  number that the host does not print so (NaN and the infinities), the argument is
  what \<^verbatim>\<open>strOfNumber\<close> makes of it.
\<close>

definition label_or_literal ::
  "(js_number \<Rightarrow> string) \<Rightarrow> 'e ggb_api \<Rightarrow> sk_object \<Rightarrow> 'e \<Rightarrow> string \<Rightarrow> bool" where
  "label_or_literal toExponential ggbApi x st a =
     (case x of
        GgbObject l \<Rightarrow> getObjectType ggbApi l st = ''numeric'' \<and> a = l
      | _ \<Rightarrow> (case number_v x of
                Some (JsNumber n) \<Rightarrow>
                  (case spec_literal (toExponential n) of
                     Some lit \<Rightarrow> a = lit \<and> encoded_literal a
                   | None \<Rightarrow> a = strOfNumber toExponential n)
              | _ \<Rightarrow> False))"

text \<open>
  The keyword arguments \<^verbatim>\<open>name=value, ...\<close> of a call as a sequence of pairs, the array
  in which Skulpt passes them, and the specification's reading of
  \<^verbatim>\<open>with_properties\<close>: the setters applied one after the other, in the order given,
  up to the first that throws.
\<close>

definition kwargs_of :: "(string \<times> sk_object) list \<Rightarrow> kw_item list" where
  "kwargs_of pairs = concat (map (\<lambda>(name, v). [KwName name, KwValue v]) pairs)"

fun apply_setters ::
  "(sk_object \<Rightarrow> sk_object \<Rightarrow> sk_object \<Rightarrow> 's \<Rightarrow> (error + unit) \<times> 's) \<Rightarrow>
   sk_object \<Rightarrow> (string \<times> sk_object) list \<Rightarrow> 's \<Rightarrow> (error + unit) \<times> 's" where
  "apply_setters setattr obj [] st = (Inr (), st)"
| "apply_setters setattr obj ((name, v) # rest) st =
     (case setattr obj (PyStr name) v st of
        (Inl e, st') \<Rightarrow> (Inl e, st')
      | (Inr u, st') \<Rightarrow> apply_setters setattr obj rest st')"

text \<open>
  A handler that only records its call, with its arguments, in the rest of the script's
  state: the calls made can then be read off the state.
\<close>

definition record_call ::
  "'h \<Rightarrow> 'a \<Rightarrow> ('w, 'h, ('h \<times> 'a) list) script_state \<Rightarrow>
   (error + unit) \<times> ('w, 'h, ('h \<times> 'a) list) script_state" where
  "record_call h args st = (Inr (), st\<lparr>script_rest := script_rest st @ [(h, args)]\<rparr>)"

text \<open>The reference construction after the engine has copied the point \<open>A\<close>.\<close>

definition copied_construction :: construction where
  "copied_construction = ref_construction @
     [(''cc'', \<lparr> go_type = ''point'', go_visible = True, go_color = ''#0000FF'',
                go_size = JsFinite 5, go_thickness = JsFinite 1, go_independent = True \<rparr>)]"

text \<open>The number of calls of \<^verbatim>\<open>boot\<close> that went past the guard.\<close>

definition entered :: "boot_pc list \<Rightarrow> nat" where
  "entered calls = length (filter past_guard calls)"

text \<open>
  A call of \<^verbatim>\<open>boot\<close> that waits for a promise, and the invariant of the application:
  at most one call went past the guard, none did while the status is idle, and the
  status is running while a call waits.
\<close>

fun awaiting :: "boot_pc \<Rightarrow> bool" where
  "awaiting AwaitFetch = True"
| "awaiting AwaitText = True"
| "awaiting AwaitDb = True"
| "awaiting pc = False"

definition boot_invariant :: "'api Dependencies \<times> boot_pc list \<Rightarrow> bool" where
  "boot_invariant c =
     (entered (snd c) \<le> 1 \<and>
      (bootStatus (fst c) = BootIdle \<longrightarrow> entered (snd c) = 0) \<and>
      (\<forall>i < length (snd c). awaiting (snd c ! i) \<longrightarrow> bootStatus (fst c) = BootRunning))"


section \<open>Properties of the numeric encoding\<close>

lemma js_split_nonempty: "js_split c s \<noteq> []"
  by (induction s) (auto split: list.splits)

lemma js_split_no_separator: "c \<notin> set s \<Longrightarrow> js_split c s = [s]"
  by (induction s) auto

lemma js_split_at_separator:
  "c \<notin> set a \<Longrightarrow> js_split c (a @ c # b) = a # js_split c b"
  by (induction a) auto

lemma template_two [simp]: "template_sig_exp (s # e # rest) = ''('' @ s @ ''*10^('' @ e @ ''))''"
  by (simp add: template_sig_exp_def)

lemma strOfNumber_literal:
  assumes "toExponential n = sig @ ''e'' @ expo" and "CHR ''e'' \<notin> set sig" and "CHR ''e'' \<notin> set expo"
  shows "strOfNumber toExponential n = ''('' @ sig @ ''*10^('' @ expo @ ''))''"
  using assms by (simp add: strOfNumber_def js_split_at_separator js_split_no_separator)

lemma significand_text_chars: "significand_text s \<Longrightarrow> set s \<subseteq> set ''-.0123456789''"
proof -
  assume a: "significand_text s"
  have digits: "list_all is_digit xs \<Longrightarrow> set xs \<subseteq> set ''-.0123456789''" for xs
    by (induction xs) (auto simp: is_digit_def)
  show ?thesis
  proof (cases "take 1 s = ''-''")
    case True
    then obtain t where s: "s = CHR ''-'' # t" by (cases s) auto
    with a obtain d r where t: "t = d # r" and d: "is_digit d"
      and r: "r = [] \<or> (take 1 r = ''.'' \<and> list_all is_digit (drop 1 r))"
      by (auto simp: significand_text_def split: list.splits)
    from r have "set r \<subseteq> set ''-.0123456789''"
    proof
      assume "r = []" then show ?thesis by simp
    next
      assume "take 1 r = ''.'' \<and> list_all is_digit (drop 1 r)"
      then obtain r' where "r = CHR ''.'' # r'" "list_all is_digit r'" by (cases r) auto
      with digits [of r'] show ?thesis by auto
    qed
    with s t d show ?thesis by (auto simp: is_digit_def)
  next
    case False
    with a obtain d r where t: "s = d # r" and d: "is_digit d"
      and r: "r = [] \<or> (take 1 r = ''.'' \<and> list_all is_digit (drop 1 r))"
      by (auto simp: significand_text_def split: list.splits)
    from r have "set r \<subseteq> set ''-.0123456789''"
    proof
      assume "r = []" then show ?thesis by simp
    next
      assume "take 1 r = ''.'' \<and> list_all is_digit (drop 1 r)"
      then obtain r' where "r = CHR ''.'' # r'" "list_all is_digit r'" by (cases r) auto
      with digits [of r'] show ?thesis by auto
    qed
    with t d show ?thesis by (auto simp: is_digit_def)
  qed
qed

lemma exponent_text_chars: "exponent_text e \<Longrightarrow> set e \<subseteq> set ''+-0123456789''"
proof -
  assume a: "exponent_text e"
  have digits: "list_all is_digit xs \<Longrightarrow> set xs \<subseteq> set ''+-0123456789''" for xs
    by (induction xs) (auto simp: is_digit_def)
  from a obtain sg ds where "e = sg # ds" "sg = CHR ''+'' \<or> sg = CHR ''-''" "list_all is_digit ds"
    by (auto simp: exponent_text_def split: list.splits)
  with digits [of ds] show ?thesis by auto
qed

lemma spec_literal_pieces:
  assumes "spec_literal printed = Some lit"
  shows "\<exists>s e. printed = s @ ''e'' @ e \<and> significand_text s \<and> exponent_text e \<and>
           lit = ''('' @ s @ ''*10^('' @ e @ ''))''"
proof -
  let ?s = "takeWhile (\<lambda>c. c \<noteq> CHR ''e'') printed"
  let ?rest = "dropWhile (\<lambda>c. c \<noteq> CHR ''e'') printed"
  from assms have sig: "significand_text ?s" and ne: "?rest \<noteq> []" and ex: "exponent_text (tl ?rest)"
    and lit: "lit = ''('' @ ?s @ ''*10^('' @ tl ?rest @ ''))''"
    by (auto simp: spec_literal_def Let_def split: if_splits)
  from ne have "hd ?rest = CHR ''e''" using hd_dropWhile [of "\<lambda>c. c \<noteq> CHR ''e''" printed] by simp
  with ne have "?rest = ''e'' @ tl ?rest" by (cases ?rest) auto
  then have "printed = ?s @ ''e'' @ tl ?rest"
    by (metis takeWhile_dropWhile_id)
  with sig ex lit show ?thesis by blast
qed

lemma strOfNumber_spec_literal:
  assumes "spec_literal (toExponential n) = Some lit"
  shows "strOfNumber toExponential n = lit"
proof -
  from spec_literal_pieces [OF assms] obtain s e where p: "toExponential n = s @ ''e'' @ e"
    and s: "significand_text s" and e: "exponent_text e" and lit: "lit = ''('' @ s @ ''*10^('' @ e @ ''))''"
    by blast
  from significand_text_chars [OF s] have "CHR ''e'' \<notin> set s" by auto
  moreover from exponent_text_chars [OF e] have "CHR ''e'' \<notin> set e" by auto
  ultimately show ?thesis
    using strOfNumber_literal [of toExponential n s e] p lit by simp
qed

lemma takeWhile_upto: "c \<notin> set s \<Longrightarrow> takeWhile (\<lambda>x. x \<noteq> c) (s @ c # r) = s"
  by (induction s) auto

lemma dropWhile_upto: "c \<notin> set s \<Longrightarrow> dropWhile (\<lambda>x. x \<noteq> c) (s @ c # r) = c # r"
  by (induction s) auto

lemma encoded_literal_intro:
  assumes s: "significand_text s" and e: "exponent_text e"
  shows "encoded_literal (''('' @ s @ ''*10^('' @ e @ ''))'')"
proof -
  from significand_text_chars [OF s] have star: "CHR ''*'' \<notin> set s" by auto
  have tail: "drop (length e + 5) (c1 # c2 # c3 # c4 # c5 # e @ t) = t" for c1 c2 c3 c4 c5 :: char and t
    by (simp add: eval_nat_numeral)
  show ?thesis
    using s e
    by (simp add: encoded_literal_def takeWhile_upto [OF star] dropWhile_upto [OF star] tail)
qed

lemma encoded_literal_elim:
  assumes "encoded_literal a"
  shows "\<exists>s e. significand_text s \<and> exponent_text e \<and> a = ''('' @ s @ ''*10^('' @ e @ ''))''"
proof -
  from assms obtain r where a: "a = CHR ''('' # r"
    by (cases a) (auto simp: encoded_literal_def)
  define s where "s = takeWhile (\<lambda>c. c \<noteq> CHR ''*'') r"
  define r' where "r' = dropWhile (\<lambda>c. c \<noteq> CHR ''*'') r"
  define e where "e = drop 5 r'"
  from assms a have s: "significand_text s" and pre: "take 5 r' = ''*10^(''"
    and post: "drop (length e - 2) e = ''))''"
    and ex: "exponent_text (take (length e - 2) e)"
    by (simp_all add: encoded_literal_def Let_def s_def r'_def e_def)
  have "r = s @ r'" by (simp add: s_def r'_def)
  moreover have "r' = ''*10^('' @ e"
    using append_take_drop_id [of 5 r'] pre by (simp add: e_def)
  moreover have "e = take (length e - 2) e @ ''))''"
    using append_take_drop_id [of "length e - 2" e] post by simp
  ultimately have "a = ''('' @ s @ ''*10^('' @ take (length e - 2) e @ ''))''"
    using a by simp
  with s ex show ?thesis by blast
qed

lemma encoded_literal_iff:
  "encoded_literal a \<longleftrightarrow>
     (\<exists>s e. significand_text s \<and> exponent_text e \<and> a = ''('' @ s @ ''*10^('' @ e @ ''))'')"
  using encoded_literal_elim encoded_literal_intro by blast

lemma spec_literal_encoded: "spec_literal printed = Some lit \<Longrightarrow> encoded_literal lit"
  using spec_literal_pieces encoded_literal_intro by blast

text \<open>
  Claim C2, as the code has it. \<^verbatim>\<open>numberValueOrLabel\<close> returns the label of a wrapped
  object whose engine type is \<^verbatim>\<open>numeric\<close>; for a Python number that holds a JavaScript
  number it returns the encoded literal of its value, which is \<^verbatim>\<open>(s*10^(e))\<close> when
  \<^verbatim>\<open>toExponential\<close> prints the value as \<^verbatim>\<open>s\<close>, the letter e, and \<^verbatim>\<open>e\<close>; for a value
  that is neither it throws a \<open>RuntimeError\<close> with the message
  \<^verbatim>\<open>internal error: not Number or number\<close>. It is given no role of the argument and
  names none.
\<close>

theorem numberValueOrLabel_cases:
  "(getObjectType ggbApi l st = ''numeric'' \<longrightarrow>
      numberValueOrLabel toExponential ggbApi (GgbObject l) st = Inr l) \<and>
   (number_v x = Some (JsNumber n) \<longrightarrow>
      numberValueOrLabel toExponential ggbApi x st = Inr (strOfNumber toExponential n)) \<and>
   (number_v x = Some (JsNumber n) \<and> toExponential n = sig @ ''e'' @ expo \<and>
      CHR ''e'' \<notin> set sig \<and> CHR ''e'' \<notin> set expo \<longrightarrow>
      numberValueOrLabel toExponential ggbApi x st = Inr (''('' @ sig @ ''*10^('' @ expo @ ''))'')) \<and>
   (number_v x = None \<and> \<not> isGgbObject ggbApi x (Some ''numeric'') st \<longrightarrow>
      numberValueOrLabel toExponential ggbApi x st =
        Inl (RuntimeError ''internal error: not Number or number''))"
proof -
  have num: "numberValueOrLabel toExponential ggbApi x st = Inr (strOfNumber toExponential n)"
    if "number_v x = Some (JsNumber n)"
  proof -
    from that have "\<not> has_ggbLabel x" by (cases x) auto
    with that show ?thesis
      by (simp add: numberValueOrLabel_def isGgbObject_def checkNumber_def strOfNumber_def)
  qed
  have lit: "numberValueOrLabel toExponential ggbApi x st = Inr (''('' @ sig @ ''*10^('' @ expo @ ''))'')"
    if "number_v x = Some (JsNumber n)" "toExponential n = sig @ ''e'' @ expo"
       "CHR ''e'' \<notin> set sig" "CHR ''e'' \<notin> set expo"
    using that num strOfNumber_literal [of toExponential n sig expo] by simp
  show ?thesis
    using num lit by (simp add: numberValueOrLabel_def isGgbObject_def checkNumber_def)
qed

theorem numberValueOrLabel_cases_witness:
  "numberValueOrLabel toExponential_ref ref_api (GgbObject ''n'') ref_construction = Inr ''n'' \<and>
   numberValueOrLabel toExponential_ref ref_api (PyInt (JsNumber (JsFinite 30))) ref_construction = Inr ''(3*10^(+1))'' \<and>
   numberValueOrLabel toExponential_ref ref_api (PyStr ''abc'') ref_construction =
     Inl (RuntimeError ''internal error: not Number or number'')"
proof -
  note at_str = numberValueOrLabel_cases [of ref_api "''n''" ref_construction toExponential_ref
      "PyStr ''abc''" "JsFinite 30" "''3''" "''+1''"]
  note at_int = numberValueOrLabel_cases [of ref_api "''n''" ref_construction toExponential_ref
      "PyInt (JsNumber (JsFinite 30))" "JsFinite 30" "''3''" "''+1''"]
  have "getObjectType ref_api ''n'' ref_construction = ''numeric''"
    by (simp add: ref_api_def ref_construction_def)
  with at_str have label: "numberValueOrLabel toExponential_ref ref_api (GgbObject ''n'') ref_construction = Inr ''n''"
    by blast
  have "toExponential_ref (JsFinite 30) = ''3'' @ ''e'' @ ''+1''"
    by code_simp
  then have "number_v (PyInt (JsNumber (JsFinite 30))) = Some (JsNumber (JsFinite 30)) \<and>
      toExponential_ref (JsFinite 30) = ''3'' @ ''e'' @ ''+1'' \<and>
      CHR ''e'' \<notin> set ''3'' \<and> CHR ''e'' \<notin> set ''+1''"
    by simp
  with at_int have "numberValueOrLabel toExponential_ref ref_api (PyInt (JsNumber (JsFinite 30))) ref_construction =
      Inr (''('' @ ''3'' @ ''*10^('' @ ''+1'' @ ''))'')"
    by blast
  then have literal: "numberValueOrLabel toExponential_ref ref_api (PyInt (JsNumber (JsFinite 30))) ref_construction =
      Inr ''(3*10^(+1))''"
    by simp
  have "number_v (PyStr ''abc'') = None \<and>
      \<not> isGgbObject ref_api (PyStr ''abc'') (Some ''numeric'') ref_construction"
    by (simp add: isGgbObject_def)
  with at_str have "numberValueOrLabel toExponential_ref ref_api (PyStr ''abc'') ref_construction =
      Inl (RuntimeError ''internal error: not Number or number'')"
    by blast
  with label literal show ?thesis by blast
qed


text \<open>
  Claim C2, as stated, fails: on the Python string \<^verbatim>\<open>"abc"\<close> the exception thrown is
  not a \<open>TypeError\<close>.
\<close>

theorem numberValueOrLabel_counterexample:
  "\<not> raises_TypeError (numberValueOrLabel toExponential_ref ref_api (PyStr ''abc'') ref_construction)"
  by (simp add: numberValueOrLabel_def isGgbObject_def checkNumber_def)

text \<open>
  Beside the claim: a Python \<^verbatim>\<open>int\<close> that holds a BigInt is a number for
  \<^verbatim>\<open>checkNumber\<close>, and the call of \<^verbatim>\<open>toExponential\<close> on it throws the host's
  \<^verbatim>\<open>TypeError\<close>.
\<close>

lemma numberValueOrLabel_bigint:
  "numberValueOrLabel toExponential ggbApi (PyInt (JsBigInt i)) st =
     Inl (HostTypeError ''x.v.toExponential is not a function'')"
  by (simp add: numberValueOrLabel_def isGgbObject_def checkNumber_def)

section \<open>Properties of \<^verbatim>\<open>with_properties\<close>\<close>

lemma kwargs_of_Cons [simp]:
  "kwargs_of ((name, v) # rest) = KwName name # KwValue v # kwargs_of rest"
  by (simp add: kwargs_of_def)

lemma kwargs_of_Nil [simp]: "kwargs_of [] = []"
  by (simp add: kwargs_of_def)

lemma length_kwargs_of [simp]: "length (kwargs_of pairs) = 2 * length pairs"
  by (induction pairs) auto

lemma kwargs_of_append: "kwargs_of (xs @ ys) = kwargs_of xs @ kwargs_of ys"
  by (simp add: kwargs_of_def)

lemma setattr_loop_from:
  "setattr_loop setattr obj (kwargs_of pre @ kwargs_of rest) (2 * length pre) st =
     Some (apply_setters setattr obj rest st)"
proof (induction rest arbitrary: pre st)
  case Nil
  show ?case by (subst setattr_loop.simps) simp
next
  case (Cons p rest)
  obtain name v where p: "p = (name, v)" by (cases p)
  let ?arr = "kwargs_of pre @ kwargs_of (p # rest)"
  have nm: "propNameAt ?arr (2 * length pre) = Some name"
    by (simp add: propNameAt_def p nth_append)
  have vl: "propValueAt ?arr (2 * length pre + 1) = Some v"
    by (simp add: propValueAt_def p nth_append)
  have next_call: "setattr_loop setattr obj
        (kwargs_of pre @ KwName name # KwValue v # kwargs_of rest) (Suc (Suc (2 * length pre))) st' =
      Some (apply_setters setattr obj rest st')" for st'
    using Cons.IH [of "pre @ [p]" st'] by (simp add: kwargs_of_append p)
  have ne: "2 * length pre \<noteq> length ?arr" by (simp add: p)
  show ?case
    by (subst setattr_loop.simps)
       (simp only: ne if_False nm vl, simp add: p next_call split: prod.split sum.split)
qed

lemma setattr_loop_all:
  "setattr_loop setattr obj (kwargs_of pairs) 0 st = Some (apply_setters setattr obj pairs st)"
  using setattr_loop_from [of setattr obj "[]" pairs st] by simp

text \<open>
  Claim C5. For every object and every sequence of (name, value) pairs,
  \<^verbatim>\<open>with_properties(name=value, ...)\<close> returns: it has applied the attribute setter to
  the pairs one after the other, in the order given, and its result is the very object
  it was called on, in the state the setters left. If a setter throws, the exception
  is the result, in the state reached by the setters before it.
\<close>

theorem with_properties_sequential:
  "with_properties setattr this [] (kwargs_of pairs) st =
     Some (case apply_setters setattr this pairs st of
             (Inl e, st') \<Rightarrow> (Inl e, st')
           | (Inr u, st') \<Rightarrow> (Inr this, st'))"
  by (simp add: with_properties_def withPropertiesFromNameValuePairs_def setattr_loop_all
        split: prod.split sum.split)

theorem with_properties_sequential_witness:
  "with_properties ref_setattr (GgbObject ''A'') []
     [KwName ''size'', KwValue (PyInt (JsNumber (JsFinite 7))), KwName ''is_visible'', KwValue PyNone]
     ref_construction =
   Some (Inr (GgbObject ''A''),
     [(''A'', \<lparr> go_type = ''point'', go_visible = False, go_color = ''#0000FF'',
                go_size = JsFinite 7, go_thickness = JsFinite 1, go_independent = False \<rparr>),
      (''n'', \<lparr> go_type = ''numeric'', go_visible = False, go_color = ''#000000'',
                go_size = JsFinite 1, go_thickness = JsFinite 1, go_independent = True \<rparr>)])"
  using with_properties_sequential [of ref_setattr "GgbObject ''A''"
      "[(''size'', PyInt (JsNumber (JsFinite 7))), (''is_visible'', PyNone)]" ref_construction]
  by (simp add: ref_setattr_def size_set_def is_visible_set_def isTrue_def throwIfNotNumber_def
        checkNumber_def ref_api_def ref_construction_def modify_def)

section \<open>Properties of the shared accessors\<close>

text \<open>
  Claim C9, as the code has it. The setter of \<^verbatim>\<open>is_visible\<close> has no type check of its
  own. A value of a built-in class, boolean or not, is accepted: the engine's
  visibility mutator is called with its truthiness and nothing is raised. For any other
  object the truthiness is what its own \<^verbatim>\<open>__bool__\<close> or \<^verbatim>\<open>__len__\<close> answers: if that
  returns, the mutator is called with the answer; if that raises, the setter raises the
  same exception and the mutator is not called.
\<close>

theorem is_visible_set_truthiness:
  "(builtin_truth pyIsVisible = Some b \<longrightarrow>
      is_visible_set truth ggbApi (GgbObject l) pyIsVisible st =
        (Inr (), setVisible ggbApi l b st)) \<and>
   (builtin_truth pyIsVisible = None \<and> truth pyIsVisible st = (Inr b, st') \<longrightarrow>
      is_visible_set truth ggbApi (GgbObject l) pyIsVisible st =
        (Inr (), setVisible ggbApi l b st')) \<and>
   (builtin_truth pyIsVisible = None \<and> truth pyIsVisible st = (Inl e, st') \<longrightarrow>
      is_visible_set truth ggbApi (GgbObject l) pyIsVisible st = (Inl e, st'))"
  by (simp add: is_visible_set_def isTrue_def)

theorem is_visible_set_truthiness_witness:
  "is_visible_set ref_truth ref_api (GgbObject ''A'') (PyStr ''no'') ref_construction =
     (Inr (), setVisible ref_api ''A'' True ref_construction) \<and>
   is_visible_set ref_truth ref_api (GgbObject ''A'') (PyList []) ref_construction =
     (Inr (), setVisible ref_api ''A'' False ref_construction) \<and>
   is_visible_set ref_truth ref_api (GgbObject ''A'') (PyInstance 3) ref_construction =
     (Inr (), setVisible ref_api ''A'' False ref_construction) \<and>
   is_visible_set ref_truth ref_api (GgbObject ''A'') (PyInstance 0) ref_construction =
     (Inl (OtherError ''ValueError'' ''no truth value''), ref_construction)"
proof -
  have "builtin_truth (PyStr ''no'') = Some True"
    by simp
  with is_visible_set_truthiness [where pyIsVisible = "PyStr ''no''" and b = True and truth = ref_truth
      and ggbApi = ref_api and l = "''A''" and st = ref_construction]
  have a: "is_visible_set ref_truth ref_api (GgbObject ''A'') (PyStr ''no'') ref_construction =
      (Inr (), setVisible ref_api ''A'' True ref_construction)"
    by blast
  have "builtin_truth (PyList []) = Some False"
    by simp
  with is_visible_set_truthiness [where pyIsVisible = "PyList []" and b = False and truth = ref_truth
      and ggbApi = ref_api and l = "''A''" and st = ref_construction]
  have b: "is_visible_set ref_truth ref_api (GgbObject ''A'') (PyList []) ref_construction =
      (Inr (), setVisible ref_api ''A'' False ref_construction)"
    by blast
  have "builtin_truth (PyInstance 3) = None \<and>
      ref_truth (PyInstance 3) ref_construction = (Inr False, ref_construction)"
    by (simp add: ref_truth_def)
  with is_visible_set_truthiness [where pyIsVisible = "PyInstance 3" and b = False and truth = ref_truth
      and ggbApi = ref_api and l = "''A''" and st = ref_construction and st' = ref_construction]
  have c: "is_visible_set ref_truth ref_api (GgbObject ''A'') (PyInstance 3) ref_construction =
      (Inr (), setVisible ref_api ''A'' False ref_construction)"
    by blast
  have "builtin_truth (PyInstance 0) = None \<and>
      ref_truth (PyInstance 0) ref_construction =
        (Inl (OtherError ''ValueError'' ''no truth value''), ref_construction)"
    by (simp add: ref_truth_def)
  with is_visible_set_truthiness [where pyIsVisible = "PyInstance 0" and truth = ref_truth
      and st = ref_construction and st' = ref_construction and ggbApi = ref_api and l = "''A''"
      and e = "OtherError ''ValueError'' ''no truth value''"]
  have d: "is_visible_set ref_truth ref_api (GgbObject ''A'') (PyInstance 0) ref_construction =
      (Inl (OtherError ''ValueError'' ''no truth value''), ref_construction)"
    by blast
  from a b c d show ?thesis by blast
qed

text \<open>
  Claim C9, as stated, fails: given an object of the script whose \<^verbatim>\<open>__bool__\<close> raises,
  the setter raises, and the engine is as it was.
\<close>

theorem is_visible_set_counterexample:
  "is_visible_set ref_truth ref_api (GgbObject ''A'') (PyInstance 0) ref_construction =
     (Inl (OtherError ''ValueError'' ''no truth value''), ref_construction)"
  by (simp add: is_visible_set_def isTrue_def ref_truth_def)

text \<open>
  Claim C3 at the sizes 0 and 10. The setter of \<^verbatim>\<open>size\<close> checks only that the value
  is a number: for 0 and for 10 it throws nothing and calls the engine's mutator with
  the value. The check of the range stands in the source as a comment
  (\<^verbatim>\<open>TODO: Verify integer and in range [1, 9]\<close>).
\<close>

theorem size_set_out_of_range:
  "size_set ggbApi (GgbObject l) (PyInt (JsNumber (JsFinite 0))) st =
     Inr (setPointSize ggbApi l (JsNumber (JsFinite 0)) st) \<and>
   size_set ggbApi (GgbObject l) (PyInt (JsNumber (JsFinite 10))) st =
     Inr (setPointSize ggbApi l (JsNumber (JsFinite 10)) st)"
  by (simp add: size_set_def throwIfNotNumber_def checkNumber_def)

section \<open>Properties of Rotate and of the commands submitted\<close>

text \<open>
  Claim C8. Called with a number of arguments other than two, the three-argument form
  of its own message included, \<^verbatim>\<open>Rotate\<close> throws the \<open>TypeError\<close> and leaves the
  engine as it was: for every engine API the state returned is the state given, and
  against the recording API the list of commands submitted is unchanged.
\<close>

theorem Rotate_wrong_arity:
  assumes "length args \<noteq> 2"
  shows "Rotate throwIfNotPyOrGgbNumber assembledCommand toExponential registry ggbApi args st =
     (Inl (TypeError
        ''Rotate() arguments must be (object, angle) or (object, angle, rotation_center_point)''), st) \<and>
   fst (snd (Rotate throwIfNot assembledCommand toExponential registry (recording api) args (cmds, s))) =
     cmds"
  using assms by (simp add: Rotate_def)

theorem Rotate_wrong_arity_witness:
  "Rotate (\<lambda>x role st. None) bracket_command toExponential_ref ref_registry ref_api
     [GgbObject ''A'', PyInt (JsNumber (JsFinite 30)), GgbObject ''A''] ref_construction =
     (Inl (TypeError
        ''Rotate() arguments must be (object, angle) or (object, angle, rotation_center_point)''),
      ref_construction) \<and>
   fst (snd (Rotate (\<lambda>x role st. None) bracket_command toExponential_ref ref_registry
        (recording ref_api) [GgbObject ''A'', PyInt (JsNumber (JsFinite 30)), GgbObject ''A'']
        ([], ref_construction))) = []"
  using Rotate_wrong_arity [where args = "[GgbObject ''A'', PyInt (JsNumber (JsFinite 30)), GgbObject ''A'']"
      and throwIfNotPyOrGgbNumber = "\<lambda>x role st. None" and throwIfNot = "\<lambda>x role st. None"
      and assembledCommand = bracket_command and toExponential = toExponential_ref
      and registry = ref_registry and ggbApi = ref_api and st = ref_construction
      and api = ref_api and cmds = "[]" and s = ref_construction]
  by simp

lemma bracket_form_intro: "bracket_form (name @ ''['' @ body @ '']'')"
proof (induction name)
  case Nil
  show ?case by (simp add: bracket_form_def)
next
  case (Cons c name)
  then show ?case by (cases "c = CHR ''[''") (simp_all add: bracket_form_def)
qed

lemma bracket_form_elim:
  assumes "bracket_form cmd"
  shows "\<exists>name body. cmd = name @ ''['' @ body @ '']''"
proof -
  let ?rest = "dropWhile (\<lambda>c. c \<noteq> CHR ''['') cmd"
  from assms have len: "2 \<le> length ?rest" and lst: "last ?rest = CHR '']''"
    by (simp_all add: bracket_form_def Let_def)
  from len obtain r where r: "?rest = CHR ''['' # r"
    using hd_dropWhile [of "\<lambda>c. c \<noteq> CHR ''[''" cmd] by (cases ?rest) auto
  with len have "r \<noteq> []" by auto
  with lst r have "r = butlast r @ '']''"
    by (metis append_butlast_last_id last_ConsR)
  with r have "cmd = takeWhile (\<lambda>c. c \<noteq> CHR ''['') cmd @ ''['' @ butlast r @ '']''"
    by (metis append_Cons append_Nil takeWhile_dropWhile_id)
  then show ?thesis by blast
qed

lemma bracket_form_iff: "bracket_form cmd \<longleftrightarrow> (\<exists>name body. cmd = name @ ''['' @ body @ '']'')"
  using bracket_form_intro bracket_form_elim by metis

lemma bracket_command_form: "bracket_form (bracket_command name args)"
  unfolding bracket_command_def by (rule bracket_form_intro)

lemma isGgbObject_recording [simp]:
  "isGgbObject (recording api) x required (cmds, st) = isGgbObject api x required st"
  by (simp add: isGgbObject_def recording_def Let_def split: option.split)

lemma numberValueOrLabel_recording [simp]:
  "numberValueOrLabel toExponential (recording api) x (cmds, st) =
     numberValueOrLabel toExponential api x st"
  by (simp add: numberValueOrLabel_def)

lemma eval_recording:
  "evalCommandGetLabels (recording api) cmd (cmds, st) =
     (fst (evalCommandGetLabels api cmd st), (cmds @ [cmd], snd (evalCommandGetLabels api cmd st)))"
  by (simp add: recording_def split: prod.split)

lemma assemble_form: "bracket_form (assemble name args)"
  unfolding assemble_def by (rule bracket_form_intro)

lemma numberValueOrLabel_label_or_literal:
  assumes "numberValueOrLabel toExponential api x st = Inr a"
  shows "label_or_literal toExponential api x st a"
proof (cases "isGgbObject api x (Some ''numeric'') st")
  case True
  then obtain l where "x = GgbObject l" "getObjectType api l st = ''numeric''"
    by (cases x) (auto simp: isGgbObject_def)
  with assms show ?thesis
    by (simp add: numberValueOrLabel_def isGgbObject_def label_or_literal_def)
next
  case False
  with assms obtain n where v: "number_v x = Some (JsNumber n)"
    and a: "a = strOfNumber toExponential n"
    by (auto simp: numberValueOrLabel_def checkNumber_def strOfNumber_def
          split: if_splits js_value.splits)
  from v have shape: "\<not> has_ggbLabel x" by (cases x) auto
  show ?thesis
  proof (cases "spec_literal (toExponential n)")
    case None
    with v a shape show ?thesis
      by (cases x) (auto simp: label_or_literal_def)
  next
    case (Some lit)
    from strOfNumber_spec_literal [of toExponential n lit] Some a have "a = lit" by simp
    moreover from spec_literal_encoded [OF Some] have "encoded_literal lit" .
    ultimately show ?thesis using v Some shape
      by (cases x) (auto simp: label_or_literal_def)
  qed
qed

lemma free_copy_log:
  "fst (snd (free_copy registry (recording api) (GgbObject l) (cmds, st))) =
     cmds @ [paren_command ''CopyFreeObject'' [l]]"
  by (simp add: free_copy_def eval_recording paren_command_def Let_def split: prod.split sum.split)

lemma Rotate_log:
  "fst (snd (Rotate t ac toExponential registry (recording api) args (cmds, st))) = cmds \<or>
   (\<exists>l a. args ! 0 = GgbObject l \<and> label_or_literal toExponential api (args ! 1) st a \<and>
      fst (snd (Rotate t ac toExponential registry (recording api) args (cmds, st))) =
        cmds @ [ac ''Rotate'' [l, a]])"
proof (cases "length args = 2 \<and> isGgbObject (recording api) (args ! 0) None (cmds, st) \<and>
    t (args ! 1) ''rotation angle'' (cmds, st) = None")
  case False
  then have "snd (Rotate t ac toExponential registry (recording api) args (cmds, st)) = (cmds, st)"
    by (cases "t (args ! 1) ''rotation angle'' (cmds, st)") (auto simp: Rotate_def Let_def)
  then show ?thesis by simp
next
  case True
  then obtain l where l: "args ! 0 = GgbObject l"
    by (cases "args ! 0") (auto simp: isGgbObject_def)
  show ?thesis
  proof (cases "numberValueOrLabel toExponential api (args ! 1) st")
    case (Inl e)
    with True show ?thesis by (simp add: Rotate_def Let_def)
  next
    case (Inr a)
    then have "label_or_literal toExponential api (args ! 1) st a"
      by (rule numberValueOrLabel_label_or_literal)
    moreover have "fst (snd (Rotate t ac toExponential registry (recording api) args (cmds, st))) =
        cmds @ [ac ''Rotate'' [l, a]]"
      using True Inr l
      by (simp add: Rotate_def eval_recording Let_def split: prod.split sum.split)
    ultimately show ?thesis using l by blast
  qed
qed

text \<open>
  Claim C4, as the code has it. The command that \<^verbatim>\<open>free_copy\<close> submits is
  \<^verbatim>\<open>CopyFreeObject(label)\<close>, with round parentheses, its one argument the engine label
  of the receiver. \<^verbatim>\<open>Rotate\<close>, with the command assembler of the specification,
  submits no command, or the one command \<^verbatim>\<open>Rotate[label,arg]\<close>, with square brackets:
  \<^verbatim>\<open>label\<close> is the engine label of the first argument, and \<^verbatim>\<open>arg\<close> is the engine
  label of a \<^verbatim>\<open>numeric\<close> object or, for a number that the host prints in scientific
  notation, the numeric literal of the encoded form.
\<close>

theorem submitted_commands:
  "fst (snd (free_copy registry (recording api) (GgbObject l) (cmds, st))) =
     cmds @ [''CopyFreeObject('' @ l @ '')''] \<and>
   (fst (snd (Rotate t assemble toExponential registry (recording api) args (cmds, st))) = cmds \<or>
    (\<exists>l0 a. args ! 0 = GgbObject l0 \<and> label_or_literal toExponential api (args ! 1) st a \<and>
       fst (snd (Rotate t assemble toExponential registry (recording api) args (cmds, st))) =
         cmds @ [''Rotate['' @ l0 @ '','' @ a @ '']'']))"
proof -
  have "fst (snd (free_copy registry (recording api) (GgbObject l) (cmds, st))) =
      cmds @ [''CopyFreeObject('' @ l @ '')'']"
    using free_copy_log [of registry api l cmds st] by (simp add: paren_command_def)
  moreover have "assemble ''Rotate'' [l0, a] = ''Rotate['' @ l0 @ '','' @ a @ '']''" for l0 a
    by (simp add: assemble_def)
  ultimately show ?thesis
    using Rotate_log [of t assemble toExponential registry api args cmds st] by simp
qed

theorem submitted_commands_witness:
  "fst (snd (free_copy ref_registry (recording ref_api) (GgbObject ''A'') ([], ref_construction))) =
     [''CopyFreeObject(A)''] \<and>
   fst (snd (Rotate (\<lambda>x role st. None) assemble toExponential_ref ref_registry
        (recording ref_api) [GgbObject ''A'', PyInt (JsNumber (JsFinite 30))]
        ([], ref_construction))) =
     [''Rotate[A,(3*10^(+1))]'']"
proof -
  let ?args = "[GgbObject ''A'', PyInt (JsNumber (JsFinite 30))]"
  let ?log = "fst (snd (Rotate (\<lambda>x role st. None) assemble toExponential_ref ref_registry
      (recording ref_api) ?args ([], ref_construction)))"
  note inst = submitted_commands [of ref_registry ref_api "''A''" "[]" ref_construction
      "\<lambda>x role st. None" toExponential_ref ?args]
  have copy: "fst (snd (free_copy ref_registry (recording ref_api) (GgbObject ''A'')
      ([], ref_construction))) = [''CopyFreeObject(A)'']"
    using inst by simp
  have printed: "toExponential_ref (JsFinite 30) = ''3e+1''"
    by code_simp
  have lit: "spec_literal ''3e+1'' = Some ''(3*10^(+1))''"
    by (simp add: spec_literal_def significand_text_def exponent_text_def is_digit_def)
  have "?log \<noteq> []"
    by (simp add: Rotate_def eval_recording numberValueOrLabel_def checkNumber_def
          isGgbObject_def Let_def split: sum.split)
  with inst obtain l0 a where
    "?args ! 0 = GgbObject l0"
    "label_or_literal toExponential_ref ref_api (?args ! 1) ref_construction a"
    "?log = [] @ [''Rotate['' @ l0 @ '','' @ a @ '']'']"
    by auto
  then have "?log = [''Rotate[A,(3*10^(+1))]'']"
    using printed lit by (simp add: label_or_literal_def)
  with copy show ?thesis by blast
qed

text \<open>
  Claim C4, as stated, fails. The command that \<^verbatim>\<open>free_copy\<close> submits for the object
  \<open>A\<close> is \<^verbatim>\<open>CopyFreeObject(A)\<close>, which is not of the shape \<^verbatim>\<open>Name[...]\<close>. And for the
  angle \<^verbatim>\<open>float('nan')\<close>, which the host prints as \<^verbatim>\<open>NaN\<close>, the second argument of
  the command that \<^verbatim>\<open>Rotate\<close> submits is \<^verbatim>\<open>(NaN*10^(undefined))\<close>, which is neither an
  engine label nor of the encoded form.
\<close>

theorem submitted_commands_counterexample:
  "fst (snd (free_copy ref_registry (recording ref_api) (GgbObject ''A'') ([], ref_construction))) =
     [''CopyFreeObject(A)''] \<and>
   \<not> bracket_form ''CopyFreeObject(A)'' \<and>
   fst (snd (Rotate (\<lambda>x role st. None) assemble toExponential_ref ref_registry
        (recording ref_api) [GgbObject ''A'', PyFloat JsNaN] ([], ref_construction))) =
     [''Rotate[A,(NaN*10^(undefined))]''] \<and>
   \<not> encoded_literal ''(NaN*10^(undefined))''"
proof -
  have "fst (snd (free_copy ref_registry (recording ref_api) (GgbObject ''A'')
      ([], ref_construction))) = [''CopyFreeObject(A)'']"
    by (simp add: free_copy_def eval_recording Let_def split: prod.split sum.split)
  moreover have "\<not> bracket_form ''CopyFreeObject(A)''"
    by (simp add: bracket_form_def)
  moreover have "fst (snd (Rotate (\<lambda>x role st. None) assemble toExponential_ref ref_registry
      (recording ref_api) [GgbObject ''A'', PyFloat JsNaN] ([], ref_construction))) =
      [''Rotate[A,(NaN*10^(undefined))]'']"
    by (simp add: Rotate_def eval_recording numberValueOrLabel_def checkNumber_def
          isGgbObject_def template_sig_exp_def assemble_def Let_def split: sum.split)
  moreover have "\<not> encoded_literal ''(NaN*10^(undefined))''"
    by (simp add: encoded_literal_def significand_text_def is_digit_def)
  ultimately show ?thesis by blast
qed

section \<open>Properties of \<^verbatim>\<open>free_copy\<close>\<close>

lemma fold_max_bounds: "a \<le> fold max xs a \<and> (\<forall>x \<in> set xs. x \<le> fold max xs (a::nat))"
proof (induction xs arbitrary: a)
  case Nil
  show ?case by simp
next
  case (Cons y ys)
  from Cons [of "max y a"] show ?case by auto
qed

lemma fresh_label_new: "fresh_label c \<notin> fst ` set c"
proof
  assume "fresh_label c \<in> fst ` set c"
  then obtain ob where "(fresh_label c, ob) \<in> set c" by auto
  then have "length (fresh_label c) \<in> set (map (\<lambda>(k, ob). length k) c)" by force
  with fold_max_bounds [of 0 "map (\<lambda>(k, ob). length k) c"]
  have "length (fresh_label c) \<le> fold max (map (\<lambda>(k, ob). length k) c) 0" by blast
  then show False by (simp add: fresh_label_def)
qed

lemma copy_argument_paren: "copy_argument (''CopyFreeObject('' @ l @ '')'') = Some l"
  by (simp add: copy_argument_def)

lemma ref_eval_copy:
  "map_of c l = Some ob \<Longrightarrow>
   evalCommandGetLabels ref_api (''CopyFreeObject('' @ l @ '')'') c =
     (Inr (fresh_label c), c @ [(fresh_label c, ob\<lparr>go_independent := True\<rparr>)])"
  using copy_argument_paren [of l] by (simp add: ref_api_def ref_eval_def)

lemma map_of_added:
  assumes "l' \<notin> fst ` set c"
  shows "map_of (c @ [(l', x)]) l' = Some x"
proof -
  from assms have "map_of c l' = None" by (simp add: map_of_eq_None_iff)
  then show ?thesis by (simp add: map_add_def)
qed

lemma free_copy_unfold:
  "free_copy registry ggbApi (GgbObject l) st =
     (case evalCommandGetLabels ggbApi (''CopyFreeObject('' @ l @ '')'') st of
        (Inl e, st') \<Rightarrow> (Inl e, st')
      | (Inr l', st') \<Rightarrow> (wrapExistingGgbObject registry ggbApi l' st', st'))"
  by (simp add: free_copy_def)

text \<open>
  Claim C6. \<^verbatim>\<open>free_copy\<close> on a wrapped object evaluates the copy command on the label
  of that object through the engine's API; an error of the engine is its result;
  otherwise its result is what the Type Registry makes of the label the engine
  returned, the registry's \<open>UnknownTypeError\<close> included. What the copy command does is
  the engine's. Against the reference engine, for every construction and every live
  object in it: the label returned is not one of the construction (the object is new),
  the result is the wrapper that the constructor registered for the object's tag makes
  of that label, the new object is independent, its properties read as those of the
  receiver did, and the construction is extended by it and otherwise as it was. With no
  constructor registered for the tag the result is the \<open>UnknownTypeError\<close>.
\<close>

theorem free_copy_wraps_engine_copy:
  "free_copy registry ggbApi (GgbObject l) st =
     (case evalCommandGetLabels ggbApi (''CopyFreeObject('' @ l @ '')'') st of
        (Inl e, st') \<Rightarrow> (Inl e, st')
      | (Inr l', st') \<Rightarrow> (wrapExistingGgbObject registry ggbApi l' st', st')) \<and>
   (map_of c l = Some ob \<and> registry (go_type ob) = Some ctor \<longrightarrow>
      (\<exists>l' c'. l' \<notin> fst ` set c \<and> c' = c @ [(l', ob\<lparr>go_independent := True\<rparr>)] \<and>
         free_copy registry ref_api (GgbObject l) c = (Inr (ctor (WrapExisting l')), c') \<and>
         is_independent_get ref_api (GgbObject l') c' = PyBool True \<and>
         is_visible_get ref_api (GgbObject l') c' = is_visible_get ref_api (GgbObject l) c \<and>
         color_get ref_api (GgbObject l') c' = color_get ref_api (GgbObject l) c \<and>
         size_get ref_api (GgbObject l') c' = size_get ref_api (GgbObject l) c \<and>
         line_thickness_get ref_api (GgbObject l') c' =
           line_thickness_get ref_api (GgbObject l) c)) \<and>
   (map_of c l = Some ob \<and> registry (go_type ob) = None \<longrightarrow>
      fst (free_copy registry ref_api (GgbObject l) c) = Inl (UnknownTypeError (go_type ob)))"
proof -
  have on_ref: "\<exists>l' c'. l' \<notin> fst ` set c \<and> c' = c @ [(l', ob\<lparr>go_independent := True\<rparr>)] \<and>
         free_copy registry ref_api (GgbObject l) c = (Inr (ctor (WrapExisting l')), c') \<and>
         is_independent_get ref_api (GgbObject l') c' = PyBool True \<and>
         is_visible_get ref_api (GgbObject l') c' = is_visible_get ref_api (GgbObject l) c \<and>
         color_get ref_api (GgbObject l') c' = color_get ref_api (GgbObject l) c \<and>
         size_get ref_api (GgbObject l') c' = size_get ref_api (GgbObject l) c \<and>
         line_thickness_get ref_api (GgbObject l') c' =
           line_thickness_get ref_api (GgbObject l) c"
    if live: "map_of c l = Some ob" and reg: "registry (go_type ob) = Some ctor"
  proof -
    let ?l = "fresh_label c"
    let ?c = "c @ [(?l, ob\<lparr>go_independent := True\<rparr>)]"
    have new: "?l \<notin> fst ` set c" by (rule fresh_label_new)
    have added: "map_of ?c ?l = Some (ob\<lparr>go_independent := True\<rparr>)"
      using new by (rule map_of_added)
    have tag: "getObjectType ref_api ?l ?c = go_type ob"
      using added by (simp add: ref_api_def)
    have "free_copy registry ref_api (GgbObject l) c = (Inr (ctor (WrapExisting ?l)), ?c)"
      using ref_eval_copy [OF live] tag reg
      by (simp add: free_copy_unfold wrapExistingGgbObject_def)
    moreover have "is_independent_get ref_api (GgbObject ?l) ?c = PyBool True"
      using added by (simp add: is_independent_get_def ref_api_def)
    moreover have "is_visible_get ref_api (GgbObject ?l) ?c = is_visible_get ref_api (GgbObject l) c"
      using added live by (simp add: is_visible_get_def ref_api_def)
    moreover have "color_get ref_api (GgbObject ?l) ?c = color_get ref_api (GgbObject l) c"
      using added live by (simp add: color_get_def ref_api_def)
    moreover have "size_get ref_api (GgbObject ?l) ?c = size_get ref_api (GgbObject l) c"
      using added live by (simp add: size_get_def ref_api_def)
    moreover have "line_thickness_get ref_api (GgbObject ?l) ?c =
        line_thickness_get ref_api (GgbObject l) c"
      using added live by (simp add: line_thickness_get_def ref_api_def)
    ultimately show ?thesis using new by blast
  qed
  have unknown: "fst (free_copy registry ref_api (GgbObject l) c) = Inl (UnknownTypeError (go_type ob))"
    if live: "map_of c l = Some ob" and reg: "registry (go_type ob) = None"
  proof -
    have "map_of (c @ [(fresh_label c, ob\<lparr>go_independent := True\<rparr>)]) (fresh_label c) =
        Some (ob\<lparr>go_independent := True\<rparr>)"
      using fresh_label_new by (rule map_of_added)
    then have "getObjectType ref_api (fresh_label c)
        (c @ [(fresh_label c, ob\<lparr>go_independent := True\<rparr>)]) = go_type ob"
      by (simp add: ref_api_def)
    with ref_eval_copy [OF live] reg show ?thesis
      by (simp add: free_copy_unfold wrapExistingGgbObject_def)
  qed
  from free_copy_unfold [of registry ggbApi l st] on_ref unknown show ?thesis by blast
qed

theorem free_copy_wraps_engine_copy_witness:
  "free_copy ref_registry ref_api (GgbObject ''A'') ref_construction =
     (Inr (GgbObject ''cc''), copied_construction) \<and>
   is_independent_get ref_api (GgbObject ''A'') ref_construction = PyBool False \<and>
   is_independent_get ref_api (GgbObject ''cc'') copied_construction = PyBool True \<and>
   size_get ref_api (GgbObject ''cc'') copied_construction = PyFloat (JsFinite 5) \<and>
   fst (free_copy (\<lambda>tag. None) ref_api (GgbObject ''A'') ref_construction) =
     Inl (UnknownTypeError ''point'')"
proof -
  let ?ob = "\<lparr> go_type = ''point'', go_visible = True, go_color = ''#0000FF'',
      go_size = JsFinite 5, go_thickness = JsFinite 1, go_independent = False \<rparr>"
  let ?ctor = "\<lambda>spec. case spec of WrapExisting l \<Rightarrow> GgbObject l"
  have live: "map_of ref_construction ''A'' = Some ?ob"
    by (simp add: ref_construction_def)
  have reg: "ref_registry (go_type ?ob) = Some ?ctor"
    by (simp add: ref_registry_def)
  have noreg: "(\<lambda>tag. None :: (wrap_existing_ctor_spec \<Rightarrow> sk_object) option) (go_type ?ob) = None"
    by simp
  have ev: "evalCommandGetLabels ref_api (''CopyFreeObject('' @ ''A'' @ '')'') ref_construction =
      (Inr ''cc'', copied_construction)"
    by (simp add: ref_api_def ref_eval_def copy_argument_def ref_construction_def
          fresh_label_def copied_construction_def)
  note inst = free_copy_wraps_engine_copy [where registry = ref_registry and ggbApi = ref_api
      and l = "''A''" and st = ref_construction and c = ref_construction and ob = ?ob
      and ctor = ?ctor]
  from inst live reg obtain l' c' where
    c': "c' = ref_construction @ [(l', ?ob\<lparr>go_independent := True\<rparr>)]"
    and res: "free_copy ref_registry ref_api (GgbObject ''A'') ref_construction =
      (Inr (?ctor (WrapExisting l')), c')"
    and ind: "is_independent_get ref_api (GgbObject l') c' = PyBool True"
    and size: "size_get ref_api (GgbObject l') c' =
      size_get ref_api (GgbObject ''A'') ref_construction"
    by blast
  from inst ev have "free_copy ref_registry ref_api (GgbObject ''A'') ref_construction =
      (wrapExistingGgbObject ref_registry ref_api ''cc'' copied_construction, copied_construction)"
    by simp
  with res have l': "l' = ''cc''" and cc: "c' = copied_construction"
    by (auto simp: wrapExistingGgbObject_def ref_api_def ref_registry_def copied_construction_def
          ref_construction_def)
  have orig: "is_independent_get ref_api (GgbObject ''A'') ref_construction = PyBool False"
    by (simp add: is_independent_get_def ref_api_def ref_construction_def)
  have sz: "size_get ref_api (GgbObject ''A'') ref_construction = PyFloat (JsFinite 5)"
    by (simp add: size_get_def ref_api_def ref_construction_def)
  from free_copy_wraps_engine_copy [where registry = "\<lambda>tag. None" and ggbApi = ref_api
      and st = ref_construction and c = ref_construction and l = "''A''" and ob = ?ob
      and ctor = ?ctor] live noreg
  have "fst (free_copy (\<lambda>tag. None) ref_api (GgbObject ''A'') ref_construction) =
      Inl (UnknownTypeError (go_type ?ob))"
    by blast
  then have unknown: "fst (free_copy (\<lambda>tag. None) ref_api (GgbObject ''A'') ref_construction) =
      Inl (UnknownTypeError ''point'')"
    by simp
  from res ind size l' cc orig sz unknown show ?thesis by simp
qed

section \<open>Properties of the update listeners\<close>

lemma run_handlers_append:
  "run_handlers call (hs @ hs') args st =
     (case run_handlers call hs args st of
        (Inl e, st') \<Rightarrow> (Inl e, st')
      | (Inr u, st') \<Rightarrow> run_handlers call hs' args st')"
  by (induction hs arbitrary: st) (auto split: prod.split sum.split)

text \<open>
  Claim C7. Two listeners registered on one live wrapped object that had none, and one
  firing: the first registered is called with the fired arguments, and if it throws,
  its exception is the result; otherwise the second is called with the same arguments,
  in the state the first left, and its result, exception or not, is the result. Each
  is called once.
\<close>

theorem fire_two_listeners:
  assumes fresh: "updateHandlers st w = []" and live: "\<not> deleted st w"
  shows "fire call w args (register_listener w h2 (register_listener w h1 st)) =
     (case call h1 args (register_listener w h2 (register_listener w h1 st)) of
        (Inl e, st') \<Rightarrow> (Inl e, st')
      | (Inr u, st') \<Rightarrow> call h2 args st')"
  using assms
  by (simp add: fire_def register_listener_def split: prod.split sum.split)

theorem fire_two_listeners_witness:
  "fire record_call (0::nat) ''args''
     (register_listener 0 ''second'' (register_listener 0 ''first''
        \<lparr> updateHandlers = (\<lambda>w. []), deleted = (\<lambda>w. False), script_rest = [] \<rparr>)) =
   (Inr (), \<lparr> updateHandlers = (\<lambda>w. [])(0 := [''first'', ''second'']), deleted = (\<lambda>w. False),
              script_rest = [(''first'', ''args''), (''second'', ''args'')] \<rparr>)"
  using fire_two_listeners [where st = "\<lparr> updateHandlers = (\<lambda>w. []), deleted = (\<lambda>w. False),
      script_rest = ([] :: (string \<times> string) list) \<rparr>" and w = "0::nat" and call = record_call
      and args = "''args''" and ?h1.0 = "''first''" and ?h2.0 = "''second''"]
  by (simp add: record_call_def register_listener_def)

text \<open>With the handler that records its calls: the calls made are the two, in order.\<close>

lemma record_call_two_listeners:
  assumes "updateHandlers st w = []" and "\<not> deleted st w"
  shows "fire record_call w args (register_listener w h2 (register_listener w h1 st)) =
     (Inr (), (register_listener w h2 (register_listener w h1 st))
        \<lparr>script_rest := script_rest st @ [(h1, args), (h2, args)]\<rparr>)"
  using assms by (simp add: fire_def register_listener_def record_call_def)

section \<open>Properties of the start-up\<close>

lemma boot_guard:
  "bootStatus s \<noteq> BootIdle \<Longrightarrow> boot Called r s = (ReturnedEarly, s)"
  by simp

lemma count_update:
  "i < length xs \<Longrightarrow>
   length (filter P (xs[i := x])) + (if P (xs ! i) then 1 else 0) =
   length (filter P xs) + (if P x then 1 else 0)"
proof (induction xs arbitrary: i)
  case Nil
  then show ?case by simp
next
  case (Cons a xs)
  then show ?case by (cases i) auto
qed

lemma entered_update:
  "i < length calls \<Longrightarrow>
   entered (calls[i := pc]) + (if past_guard (calls ! i) then 1 else 0) =
   entered calls + (if past_guard pc then 1 else 0)"
  unfolding entered_def by (rule count_update)

lemma entered_pos: "i < length calls \<Longrightarrow> past_guard (calls ! i) \<Longrightarrow> 0 < entered calls"
  unfolding entered_def by (metis filter_empty_conv length_greater_0_conv nth_mem)

lemma awaiting_past_guard: "awaiting pc \<Longrightarrow> past_guard pc"
  by (cases pc) auto

lemma boot_status_step: "boot pc r s = (pc', s') \<Longrightarrow>
  (awaiting pc \<longrightarrow> bootStatus s = BootRunning) \<Longrightarrow> status_step (bootStatus s) (bootStatus s')"
  by (cases pc; cases r; cases "bootStatus s")
     (auto simp: setBootStatus_def setGgbPythonModuleText_def split: if_splits)

lemma status_step_refl [simp]: "status_step a a"
  by (cases a) auto

lemma boot_invariant_init: "boot_invariant (dependencies, [])"
  by (simp add: boot_invariant_def entered_def dependencies_def)

lemma boot_invariant_step:
  assumes "boot_invariant c"
  shows "boot_invariant (app_step ev c)"
proof (cases c)
  case (Pair s calls)
  show ?thesis
  proof (cases ev)
    case Invoke
    with assms Pair show ?thesis
      by (auto simp: boot_invariant_def entered_def nth_append)
  next
    case (DispatchSetGgbApi api)
    with assms Pair show ?thesis
      by (auto simp: boot_invariant_def setGgbApi_def)
  next
    case (Resume i r)
    show ?thesis
    proof (cases "i < length calls")
      case False
      with assms Pair Resume show ?thesis by simp
    next
      case True
      note ilen = True
      obtain pc' s' where b: "boot (calls ! i) r s = (pc', s')" by (cases "boot (calls ! i) r s")
      have step: "app_step ev c = (s', calls[i := pc'])"
        using Pair Resume ilen b by simp
      from assms Pair have e1: "entered calls \<le> 1"
        and idle: "bootStatus s = BootIdle \<Longrightarrow> entered calls = 0"
        and run: "\<And>j. j < length calls \<Longrightarrow> awaiting (calls ! j) \<Longrightarrow> bootStatus s = BootRunning"
        by (auto simp: boot_invariant_def)
      note upd = entered_update [OF ilen, of pc']
      have pos: "past_guard (calls ! i) \<Longrightarrow> 0 < entered calls"
        using entered_pos [OF ilen] .
      have only: "j = i" if "j < length calls" "past_guard (calls ! j)" "past_guard (calls ! i)" for j
      proof (rule ccontr)
        assume "j \<noteq> i"
        from that(1) \<open>j \<noteq> i\<close> have "(calls[i := Called]) ! j = calls ! j" by simp
        with that have "0 < entered (calls[i := Called])"
          using entered_pos [of j "calls[i := Called]"] by simp
        moreover have "entered (calls[i := Called]) + 1 = entered calls"
          using entered_update [OF ilen, of Called] that(3) by simp
        ultimately show False using e1 by simp
      qed
      show ?thesis
      proof (cases "calls ! i")
        case Called
        show ?thesis
        proof (cases "bootStatus s = BootIdle")
          case True
          with b Called have pc': "pc' = AwaitFetch" and s': "s' = setBootStatus BootRunning s"
            by auto
          from idle True have "entered calls = 0" by simp
          with upd Called pc' have "entered (calls[i := pc']) = 1" by simp
          then show ?thesis
            unfolding step boot_invariant_def by (simp add: s' setBootStatus_def)
        next
          case False
          with b Called have pc': "pc' = ReturnedEarly" and s': "s' = s" by auto
          from upd Called pc' have "entered (calls[i := pc']) = entered calls" by simp
          moreover have "\<And>j. j < length calls \<Longrightarrow> awaiting ((calls[i := pc']) ! j) \<Longrightarrow>
              bootStatus s = BootRunning"
            using run pc' ilen by (auto simp: nth_list_update split: if_splits)
          ultimately show ?thesis
            unfolding step boot_invariant_def using e1 idle s' by simp
        qed
      next
        case ReturnedEarly
        with b have "pc' = ReturnedEarly" "s' = s" by auto
        with ReturnedEarly have "calls[i := pc'] = calls" by (metis list_update_id)
        with assms Pair \<open>s' = s\<close> show ?thesis unfolding step by simp
      next
        case Completed
        with b have "pc' = Completed" "s' = s" by auto
        with Completed have "calls[i := pc'] = calls" by (metis list_update_id)
        with assms Pair \<open>s' = s\<close> show ?thesis unfolding step by simp
      next
        case Failed
        with b have "pc' = Failed" "s' = s" by auto
        with Failed have "calls[i := pc'] = calls" by (metis list_update_id)
        with assms Pair \<open>s' = s\<close> show ?thesis unfolding step by simp
      next
        case AwaitFetch
        then have pg: "past_guard (calls ! i)" by simp
        from run [OF ilen] AwaitFetch have running: "bootStatus s = BootRunning" by simp
        from b AwaitFetch have pc': "past_guard pc'" and s': "bootStatus s' = BootRunning"
          using running by (cases r; auto)+
        from upd pg pc' have "entered (calls[i := pc']) = entered calls" by simp
        then show ?thesis
          unfolding step boot_invariant_def using e1 s' by simp
      next
        case AwaitText
        then have pg: "past_guard (calls ! i)" by simp
        from run [OF ilen] AwaitText have running: "bootStatus s = BootRunning" by simp
        from b AwaitText have pc': "past_guard pc'" and s': "bootStatus s' = BootRunning"
          using running by (cases r; auto simp: setGgbPythonModuleText_def)+
        from upd pg pc' have "entered (calls[i := pc']) = entered calls" by simp
        then show ?thesis
          unfolding step boot_invariant_def using e1 s' by simp
      next
        case AwaitDb
        then have pg: "past_guard (calls ! i)" by simp
        from b AwaitDb have pc': "past_guard pc'" "\<not> awaiting pc'"
          by (cases r; auto)+
        from b AwaitDb have s': "bootStatus s' \<noteq> BootIdle"
          using run [OF ilen] by (cases r; auto simp: setBootStatus_def)
        from upd pg pc' have ent: "entered (calls[i := pc']) = entered calls" by simp
        have "\<not> awaiting ((calls[i := pc']) ! j)" if "j < length calls" for j
        proof (cases "j = i")
          case True
          with that pc' show ?thesis by simp
        next
          case False
          with only [OF that] pg have "\<not> past_guard (calls ! j)" by blast
          with False awaiting_past_guard show ?thesis by auto
        qed
        then show ?thesis
          unfolding step boot_invariant_def using e1 s' ent by simp
      qed
    qed
  qed
qed

lemma boot_invariant_run: "boot_invariant (app_run evs)"
proof (induction evs rule: rev_induct)
  case Nil
  show ?case by (simp add: app_run_def boot_invariant_init)
next
  case (snoc ev evs)
  then show ?case by (simp add: app_run_def boot_invariant_step)
qed

lemma app_step_status:
  assumes "boot_invariant c"
  shows "status_step (bootStatus (fst c)) (bootStatus (fst (app_step ev c)))"
proof (cases c)
  case (Pair s calls)
  show ?thesis
  proof (cases ev)
    case Invoke
    with Pair show ?thesis by simp
  next
    case (DispatchSetGgbApi api)
    with Pair show ?thesis by (simp add: setGgbApi_def)
  next
    case (Resume i r)
    show ?thesis
    proof (cases "i < length calls")
      case False
      with Pair Resume show ?thesis by simp
    next
      case True
      obtain pc' s' where b: "boot (calls ! i) r s = (pc', s')" by (cases "boot (calls ! i) r s")
      from assms Pair True have "awaiting (calls ! i) \<longrightarrow> bootStatus s = BootRunning"
        by (auto simp: boot_invariant_def)
      with b have "status_step (bootStatus s) (bootStatus s')" by (rule boot_status_step)
      with Pair Resume True b show ?thesis by simp
    qed
  qed
qed

text \<open>
  Claim C10. Whenever \<^verbatim>\<open>bootStatus\<close> is not idle, a call of \<^verbatim>\<open>boot\<close> returns at
  its guard and leaves the dependency state as it was. In every run of the application
  from its initial state, at most one call of \<^verbatim>\<open>boot\<close> has gone past the guard, and
  every step leaves \<^verbatim>\<open>bootStatus\<close> as it was or takes it from idle to running or from
  running to done.
\<close>

theorem boot_runs_at_most_once:
  "(bootStatus s \<noteq> BootIdle \<longrightarrow> boot Called r s = (ReturnedEarly, s)) \<and>
   entered (snd (app_run evs)) \<le> 1 \<and>
   status_step (bootStatus (fst (app_run evs))) (bootStatus (fst (app_step ev (app_run evs))))"
  using boot_invariant_run [of evs] app_step_status [of "app_run evs" ev]
  by (simp add: boot_invariant_def)

theorem boot_runs_at_most_once_witness:
  "boot Called RejectedPromise
      (\<lparr> bootStatus = BootRunning, ggbApi_slot = None, ggbPythonModuleText = [] \<rparr> :: unit Dependencies) =
     (ReturnedEarly, \<lparr> bootStatus = BootRunning, ggbApi_slot = None, ggbPythonModuleText = [] \<rparr>) \<and>
   entered (snd (app_run [Invoke, Invoke, Resume 0 RejectedPromise, Resume 1 RejectedPromise] ::
      unit Dependencies \<times> boot_pc list)) \<le> 1 \<and>
   status_step BootIdle
     (bootStatus (fst (app_step (Resume 0 RejectedPromise) (app_run [Invoke] :: unit Dependencies \<times> boot_pc list))))"
  using boot_runs_at_most_once [of "\<lparr> bootStatus = BootRunning, ggbApi_slot = None,
        ggbPythonModuleText = [] \<rparr> :: unit Dependencies" RejectedPromise
      "[Invoke, Invoke, Resume 0 RejectedPromise, Resume 1 RejectedPromise]" "Resume 0 RejectedPromise"]
    boot_runs_at_most_once [of "\<lparr> bootStatus = BootRunning, ggbApi_slot = None,
        ggbPythonModuleText = [] \<rparr> :: unit Dependencies" RejectedPromise
      "[Invoke]" "Resume 0 RejectedPromise"]
  by (simp add: app_run_def dependencies_def setBootStatus_def entered_def)

end
